theory Spec2Isabelle
  imports Main "HOL-Library.Word" "HOL-Library.Sublist"
begin

section \<open>The registry ledger: contracts/CertificateRegistry.sol\<close>

text \<open>
  Solidity value types are machine words: \<open>address\<close> is 160 bits, \<open>bytes32\<close> and
  \<open>uint256\<close> are 256 bits. A Solidity \<open>string\<close> is a byte string, here a \<open>string\<close>.
  A Solidity \<open>mapping\<close> is a total function whose unwritten slots read as the zero value.
\<close>

type_synonym address = "160 word"
type_synonym bytes32 = "256 word"
type_synonym uint256 = "256 word"

record Certificate =
  docHash :: bytes32
  ipfsCID :: string
  issuer :: address
  timestamp :: uint256
  exists :: bool

datatype event =
    CertificateIssued bytes32 string address uint256
  | IssuerAdded address uint256
  | IssuerRemoved address uint256
  | OwnershipTransferred address address

text \<open>
  The contract's storage: the owner slot inherited from \<open>Ownable\<close>, the two mappings, and
  the log of emitted events (append-only, part of what a transaction commits).
\<close>

record registry =
  owner :: address
  certificates :: "bytes32 \<Rightarrow> Certificate"
  authorizedIssuers :: "address \<Rightarrow> bool"
  events :: "event list"

text \<open>What a call sees of its transaction: \<open>msg.sender\<close> and \<open>block.timestamp\<close>.\<close>

record env =
  msg_sender :: address
  block_timestamp :: uint256

text \<open>
  A revert carries either the string of a failed \<open>require\<close> or one of the custom errors
  of \<open>Ownable\<close>.
\<close>

datatype revert =
    Error string
  | OwnableUnauthorizedAccount address
  | OwnableInvalidOwner address

definition require :: "bool \<Rightarrow> string \<Rightarrow> (revert + 'a) \<Rightarrow> revert + 'a" where
  "require c m k = (if c then k else Inl (Error m))"

definition onlyOwner :: "env \<Rightarrow> registry \<Rightarrow> (revert + 'a) \<Rightarrow> revert + 'a" where
  "onlyOwner e s k =
     (if owner s \<noteq> msg_sender e then Inl (OwnableUnauthorizedAccount (msg_sender e)) else k)"

definition onlyAuthorizedIssuer :: "env \<Rightarrow> registry \<Rightarrow> (revert + 'a) \<Rightarrow> revert + 'a" where
  "onlyAuthorizedIssuer e s k =
     require (authorizedIssuers s (msg_sender e)) ''Not an authorized issuer'' k"

definition zeroCertificate :: Certificate where
  "zeroCertificate =
     \<lparr>docHash = 0, ipfsCID = [], issuer = 0, timestamp = 0, exists = False\<rparr>"

definition constructor :: "env \<Rightarrow> revert + registry" where
  "constructor e =
     (if msg_sender e = 0 then Inl (OwnableInvalidOwner 0)
      else Inr \<lparr>owner = msg_sender e,
                certificates = (\<lambda>_. zeroCertificate),
                authorizedIssuers = (\<lambda>_. False)(msg_sender e := True),
                events = [OwnershipTransferred 0 (msg_sender e),
                          IssuerAdded (msg_sender e) (block_timestamp e)]\<rparr>)"

definition addAuthorizedIssuer :: "env \<Rightarrow> address \<Rightarrow> registry \<Rightarrow> revert + registry" where
  "addAuthorizedIssuer e a s =
     onlyOwner e s (
     require (a \<noteq> 0) ''Invalid issuer address'' (
     require (\<not> authorizedIssuers s a) ''Issuer already authorized'' (
       Inr (s\<lparr>authorizedIssuers := (authorizedIssuers s)(a := True),
               events := events s @ [IssuerAdded a (block_timestamp e)]\<rparr>))))"

definition removeAuthorizedIssuer :: "env \<Rightarrow> address \<Rightarrow> registry \<Rightarrow> revert + registry" where
  "removeAuthorizedIssuer e a s =
     onlyOwner e s (
     require (authorizedIssuers s a) ''Issuer not authorized'' (
       Inr (s\<lparr>authorizedIssuers := (authorizedIssuers s)(a := False),
               events := events s @ [IssuerRemoved a (block_timestamp e)]\<rparr>)))"

definition issueCertificate :: "env \<Rightarrow> bytes32 \<Rightarrow> string \<Rightarrow> registry \<Rightarrow> revert + registry" where
  "issueCertificate e h cid s =
     onlyAuthorizedIssuer e s (
     require (h \<noteq> 0) ''Invalid document hash'' (
     require (cid \<noteq> []) ''Invalid IPFS CID'' (
     require (\<not> exists (certificates s h)) ''Certificate already exists'' (
       Inr (s\<lparr>certificates := (certificates s)(h :=
                 \<lparr>docHash = h, ipfsCID = cid, issuer = msg_sender e,
                  timestamp = block_timestamp e, exists = True\<rparr>),
               events := events s @
                 [CertificateIssued h cid (msg_sender e) (block_timestamp e)]\<rparr>)))))"

definition verifyCertificate :: "registry \<Rightarrow> bytes32 \<Rightarrow> bool \<times> string \<times> address \<times> uint256" where
  "verifyCertificate s h =
     (let cert = certificates s h
      in (exists cert, ipfsCID cert, issuer cert, timestamp cert))"

definition isAuthorizedIssuer :: "registry \<Rightarrow> address \<Rightarrow> bool" where
  "isAuthorizedIssuer s a = authorizedIssuers s a"

definition getCertificate :: "registry \<Rightarrow> bytes32 \<Rightarrow> Certificate" where
  "getCertificate s h = certificates s h"

text \<open>
  The external interface of the contract. A transaction that reverts commits nothing:
  storage and log are those before the call. The view functions have no \<open>require\<close> and no
  modifier, so they return for every caller.
\<close>

datatype call =
    AddAuthorizedIssuer address
  | RemoveAuthorizedIssuer address
  | IssueCertificate bytes32 string
  | VerifyCertificate bytes32
  | IsAuthorizedIssuer address
  | GetCertificate bytes32

datatype retval =
    Done
  | Verified "bool \<times> string \<times> address \<times> uint256"
  | Authorized bool
  | Cert Certificate

definition commit :: "registry \<Rightarrow> revert + registry \<Rightarrow> registry \<times> (revert + retval)" where
  "commit s r = (case r of Inl err \<Rightarrow> (s, Inl err) | Inr s' \<Rightarrow> (s', Inr Done))"

fun transact :: "env \<Rightarrow> call \<Rightarrow> registry \<Rightarrow> registry \<times> (revert + retval)" where
  "transact e (AddAuthorizedIssuer a) s = commit s (addAuthorizedIssuer e a s)"
| "transact e (RemoveAuthorizedIssuer a) s = commit s (removeAuthorizedIssuer e a s)"
| "transact e (IssueCertificate h cid) s = commit s (issueCertificate e h cid s)"
| "transact e (VerifyCertificate h) s = (s, Inr (Verified (verifyCertificate s h)))"
| "transact e (IsAuthorizedIssuer a) s = (s, Inr (Authorized (isAuthorizedIssuer s a)))"
| "transact e (GetCertificate h) s = (s, Inr (Cert (getCertificate s h)))"

text \<open>A history of transactions, in the order the chain sequenced them.\<close>

fun run :: "(env \<times> call) list \<Rightarrow> registry \<Rightarrow> registry" where
  "run [] s = s"
| "run ((e, c) # cs) s = run cs (fst (transact e c s))"

section \<open>The backend: values, encodings and the libraries it calls\<close>

text \<open>
  A Node \<open>Buffer\<close> is a list of bytes. A JavaScript text is modelled by the bytes of its
  UTF-8 encoding, one \<open>char\<close> per byte, so \<open>utf8\<close> and \<open>utf8_decode\<close> only change the
  element type. JavaScript objects that the code serialises or sends are \<open>json\<close> values;
  a member whose value is \<open>undefined\<close> is a member that is not there, as \<open>JSON.stringify\<close>
  and \<open>res.json\<close> treat it.
\<close>

type_synonym byte = "8 word"
type_synonym Buffer = "byte list"

datatype json =
    JNull
  | JBool bool
  | JNumber int
  | JString string
  | JArray "json list"
  | JObject "(string \<times> json) list"

text \<open>A thrown \<open>Error\<close>, by its \<open>message\<close>.\<close>

datatype js_error = JsError (message: string)

definition utf8 :: "string \<Rightarrow> Buffer" where
  "utf8 s = map of_char s"

definition utf8_decode :: "Buffer \<Rightarrow> string" where
  "utf8_decode b = map (\<lambda>x. char_of (unat x)) b"

text \<open>
  \<open>buf.toString('hex')\<close> writes two lower-case digits per byte. \<open>Buffer.from(s, 'hex')\<close>
  reads pairs of hex digits of either case and stops at the first pair that is not one
  (a trailing single character is dropped).
\<close>

definition hexdigit :: "nat \<Rightarrow> char" where
  "hexdigit n = (if n < 10 then char_of (48 + n) else char_of (87 + n))"

definition hexbyte :: "byte \<Rightarrow> string" where
  "hexbyte b = [hexdigit (unat b div 16), hexdigit (unat b mod 16)]"

definition to_hex :: "Buffer \<Rightarrow> string" where
  "to_hex buf = concat (map hexbyte buf)"

definition hexval :: "char \<Rightarrow> nat option" where
  "hexval c =
     (let n = (of_char c :: nat)
      in if 48 \<le> n \<and> n \<le> 57 then Some (n - 48)
         else if 97 \<le> n \<and> n \<le> 102 then Some (n - 87)
         else if 65 \<le> n \<and> n \<le> 70 then Some (n - 55)
         else None)"

fun from_hex :: "string \<Rightarrow> Buffer" where
  "from_hex (a # b # rest) =
     (case (hexval a, hexval b) of
        (Some x, Some y) \<Rightarrow> of_nat (16 * x + y) # from_hex rest
      | _ \<Rightarrow> [])"
| "from_hex _ = []"

text \<open>Big-endian bytes of a number, and back: how a digest or a \<open>bytes32\<close> is laid out.\<close>

fun bytes_be :: "nat \<Rightarrow> nat \<Rightarrow> Buffer" where
  "bytes_be 0 x = []"
| "bytes_be (Suc n) x = bytes_be n (x div 256) @ [of_nat (x mod 256)]"

definition nat_of_bytes :: "Buffer \<Rightarrow> nat" where
  "nat_of_bytes bs = foldl (\<lambda>a b. 256 * a + unat b) 0 bs"

text \<open>The decimal digits of a number, as a template literal renders it.\<close>

fun decimal :: "nat \<Rightarrow> string" where
  "decimal n =
     (if n < 10 then [char_of (48 + n)] else decimal (n div 10) @ [char_of (48 + n mod 10)])"

declare decimal.simps [simp del]

text \<open>
  ethers encodes a \<open>bytes32\<close> argument from a string \<open>0x\<close> (or \<open>0X\<close>: its pattern
  ignores case) followed by 64 hex digits, and throws on anything else.
\<close>

definition bytes32_of :: "string \<Rightarrow> js_error + bytes32" where
  "bytes32_of s =
     (case s of
        a # b # hs \<Rightarrow>
          if a = CHR ''0'' \<and> (b = CHR ''x'' \<or> b = CHR ''X'') \<and> length hs = 64
             \<and> list_all (\<lambda>c. hexval c \<noteq> None) hs
          then Inr (of_nat (nat_of_bytes (from_hex hs)))
          else Inl (JsError ''invalid BytesLike value'')
      | _ \<Rightarrow> Inl (JsError ''invalid BytesLike value''))"

text \<open>
  Property access \<open>v.k\<close>: a \<open>TypeError\<close> on \<open>null\<close>, the member of an object, and
  \<open>undefined\<close> (here \<open>None\<close>) where there is none. None of the keys read in this program is
  a built-in property of a string or an array.
\<close>

fun member :: "json \<Rightarrow> string \<Rightarrow> js_error + json option" where
  "member JNull k = Inl (JsError ''Cannot read properties of null'')"
| "member (JObject kvs) k = Inr (map_of kvs k)"
| "member v k = Inr None"

text \<open>
  What the program calls and this repository does not define is taken as given: the hash
  and the cipher of Node's \<open>crypto\<close>, \<open>JSON\<close>, the date formatter, the content addressing of
  the IPFS node, and the strings ethers produces. The theorems hold for every such library;
  where one needs a fact about it (that the decipher undoes the cipher, that parsing
  undoes printing), the fact is a stated hypothesis. \<open>error_stack\<close> is the stack text of a
  thrown error, and \<open>fileSize_exclusive\<close> says whether the multipart parser under multer
  counts a file of exactly \<open>limits.fileSize\<close> bytes as over the limit (its releases
  differ in this).
\<close>

record node =
  sha256 :: "Buffer \<Rightarrow> 256 word"
  aes_256_cbc_encrypt :: "256 word \<Rightarrow> Buffer \<Rightarrow> Buffer \<Rightarrow> Buffer"
  aes_256_cbc_decrypt :: "256 word \<Rightarrow> Buffer \<Rightarrow> Buffer \<Rightarrow> js_error + Buffer"
  JSON_stringify :: "json \<Rightarrow> string"
  JSON_stringify_indent :: "json \<Rightarrow> string"
  JSON_parse :: "string \<Rightarrow> js_error + json"
  Buffer_from_object :: "json \<Rightarrow> js_error + Buffer"
  Date_toISOString :: "nat \<Rightarrow> string"
  ipfs_cid :: "string \<Rightarrow> string"
  ethers_message :: "revert \<Rightarrow> string"
  ethers_address :: "address \<Rightarrow> string"
  error_stack :: "js_error \<Rightarrow> string"
  fileSize_exclusive :: bool

text \<open>
  What a request draws from outside the program: the random bytes, the clock, and what
  the chain assigns to the transaction.
\<close>

record ambient =
  randomBytes16 :: "128 word"
  Date_now :: nat
  Math_random :: string
  Date_now_insert :: nat
  tx_timestamp :: uint256
  tx_hash :: string
  tx_blockNumber :: nat
  tx_gasUsed :: nat

section \<open>utils/crypto.js\<close>

definition hashDocument :: "node \<Rightarrow> Buffer \<Rightarrow> string" where
  "hashDocument L fileBuffer = to_hex (bytes_be 32 (unat (sha256 L fileBuffer)))"

definition hashDocumentForBlockchain :: "node \<Rightarrow> Buffer \<Rightarrow> string" where
  "hashDocumentForBlockchain L fileBuffer = ''0x'' @ hashDocument L fileBuffer"

record encrypted_data =
  encrypted :: string
  iv :: string
  algorithm :: string

text \<open>
  \<open>encryptMetadata\<close>: the key is the SHA-256 digest of the key string, whatever its
  length; the vector is 16 fresh random bytes, so \<open>createCipheriv\<close> accepts both.
\<close>

definition encryptMetadata :: "node \<Rightarrow> 128 word \<Rightarrow> json \<Rightarrow> string \<Rightarrow> encrypted_data" where
  "encryptMetadata L random data key =
     (let encryptionKey = sha256 L (utf8 key);
          ivBytes = bytes_be 16 (unat random);
          jsonData = JSON_stringify L data;
          encryptedHex = to_hex (aes_256_cbc_encrypt L encryptionKey ivBytes (utf8 jsonData))
      in \<lparr>encrypted = encryptedHex, iv = to_hex ivBytes, algorithm = ''aes-256-cbc''\<rparr>)"

text \<open>
  \<open>decryptMetadata\<close> receives whatever the fetched blob holds under \<open>encrypted\<close> and
  \<open>iv\<close>. \<open>Buffer.from(ivHex, 'hex')\<close> decodes a string, takes an array or an object the
  way the library does, and throws on anything else; \<open>createDecipheriv\<close> throws unless the
  vector has 16 bytes; \<open>decipher.update(data, 'hex', 'utf8')\<close> throws unless the data is
  a string, and throws on a string of odd length (a hex text has two digits per byte);
  the decipher throws on bad padding; \<open>JSON.parse\<close> throws on text that is not JSON.
\<close>

definition Buffer_from_hex :: "node \<Rightarrow> json option \<Rightarrow> js_error + Buffer" where
  "Buffer_from_hex L v =
     (case v of
        Some (JString s) \<Rightarrow> Inr (from_hex s)
      | Some (JArray xs) \<Rightarrow> Buffer_from_object L (JArray xs)
      | Some (JObject kvs) \<Rightarrow> Buffer_from_object L (JObject kvs)
      | _ \<Rightarrow> Inl (JsError ''The first argument must be of type string''))"

definition decryptMetadata :: "node \<Rightarrow> json option \<Rightarrow> json option \<Rightarrow> string \<Rightarrow> js_error + json" where
  "decryptMetadata L encryptedData ivHex key =
     (let encryptionKey = sha256 L (utf8 key)
      in case Buffer_from_hex L ivHex of
           Inl e \<Rightarrow> Inl e
         | Inr ivBytes \<Rightarrow>
             if length ivBytes \<noteq> 16 then Inl (JsError ''Invalid initialization vector'')
             else (case encryptedData of
                     Some (JString hex) \<Rightarrow>
                       if odd (length hex)
                       then Inl (JsError (''The argument 'encoding' is invalid for data of length ''
                                   @ decimal (length hex) @ ''. Received 'hex'' @ [CHR 0x27]))
                       else (case aes_256_cbc_decrypt L encryptionKey ivBytes (from_hex hex) of
                               Inl e \<Rightarrow> Inl e
                             | Inr decrypted \<Rightarrow> JSON_parse L (utf8_decode decrypted))
                   | _ \<Rightarrow> Inl (JsError ''The data argument must be of type string'')))"

section \<open>The state the backend runs in\<close>

text \<open>
  The module variables of \<open>utils/ipfs.js\<close>, \<open>utils/web3.js\<close> and
  \<open>routes/certificate.js\<close>, the environment variable the routes read, and the stores
  behind the handles: the IPFS node, the directory \<open>IPFS_STORAGE_PATH\<close>, the chain with
  the deployed registry, and the \<open>transactions\<close> table. A store that cannot be reached is
  a flag, or the message of the error its client throws. \<open>NODE_ENV\<close> is read by the error
  middleware of \<open>server.js\<close>.
\<close>

record world =
  USE_IPFS :: bool
  ipfsClient :: bool
  ipfs_online :: bool
  ipfs_blocks :: "string \<rightharpoonup> string"
  fs_writable :: bool
  fs_files :: "string \<rightharpoonup> string"
  contract :: bool
  signer :: "address option"
  rpc_failure :: "string option"
  chain :: registry
  web3Ready :: bool
  db_failure :: "string option"
  db_rows :: "json list"
  AES_ENCRYPTION_KEY :: "string option"
  NODE_ENV :: "string option"

section \<open>utils/ipfs.js\<close>

definition json_of_encrypted :: "encrypted_data \<Rightarrow> json" where
  "json_of_encrypted d =
     JObject [(''encrypted'', JString (encrypted d)), (''iv'', JString (iv d)),
              (''algorithm'', JString (algorithm d))]"

text \<open>The name \<open>local-${timestamp}-${random}.json\<close> that \<open>saveToLocalStorage\<close> generates.\<close>

definition local_filename :: "ambient \<Rightarrow> string" where
  "local_filename a = ''local-'' @ decimal (Date_now a) @ ''-'' @ Math_random a @ ''.json''"

definition saveToLocalStorage :: "node \<Rightarrow> ambient \<Rightarrow> json \<Rightarrow> world \<Rightarrow> world \<times> (js_error + string)" where
  "saveToLocalStorage L a data w =
     (if \<not> fs_writable w then (w, Inl (JsError ''Failed to save data to local storage''))
      else
        let filename = local_filename a
        in (w\<lparr>fs_files := (fs_files w)(filename \<mapsto> JSON_stringify_indent L data)\<rparr>,
            Inr filename))"

definition retrieveFromLocalStorage :: "node \<Rightarrow> string \<Rightarrow> world \<Rightarrow> js_error + json" where
  "retrieveFromLocalStorage L filename w =
     (case fs_files w filename of
        None \<Rightarrow> Inl (JsError ''Failed to retrieve data from local storage'')
      | Some data \<Rightarrow>
          (case JSON_parse L data of
             Inl e \<Rightarrow> Inl (JsError ''Failed to retrieve data from local storage'')
           | Inr v \<Rightarrow> Inr v))"

text \<open>The client's \<open>add\<close> and \<open>cat\<close> against the node.\<close>

definition ipfs_add :: "node \<Rightarrow> string \<Rightarrow> world \<Rightarrow> world \<times> (js_error + string)" where
  "ipfs_add L content w =
     (if ipfs_online w
      then (w\<lparr>ipfs_blocks := (ipfs_blocks w)(ipfs_cid L content \<mapsto> content)\<rparr>,
            Inr (ipfs_cid L content))
      else (w, Inl (JsError ''request to the IPFS node failed'')))"

definition ipfs_cat :: "string \<Rightarrow> world \<Rightarrow> js_error + string" where
  "ipfs_cat cid w =
     (if ipfs_online w
      then (case ipfs_blocks w cid of
              None \<Rightarrow> Inl (JsError ''block not found'')
            | Some content \<Rightarrow> Inr content)
      else Inl (JsError ''request to the IPFS node failed''))"

definition uploadToIPFS :: "node \<Rightarrow> ambient \<Rightarrow> json \<Rightarrow> world \<Rightarrow> world \<times> (js_error + string)" where
  "uploadToIPFS L a data w =
     (let jsonData = JSON_stringify_indent L data
      in if USE_IPFS w \<and> ipfsClient w
         then (case ipfs_add L jsonData w of
                 (w', Inr path) \<Rightarrow> (w', Inr path)
               | (w', Inl e) \<Rightarrow> saveToLocalStorage L a data w')
         else saveToLocalStorage L a data w)"

definition retrieveFromIPFS :: "node \<Rightarrow> string \<Rightarrow> world \<Rightarrow> js_error + json" where
  "retrieveFromIPFS L cid w =
     (if USE_IPFS w \<and> ipfsClient w \<and> \<not> prefix ''local-'' cid
      then (case ipfs_cat cid w of
              Inl e \<Rightarrow> Inl (JsError ''Failed to retrieve data from IPFS'')
            | Inr content \<Rightarrow>
                (case JSON_parse L content of
                   Inl e \<Rightarrow> Inl (JsError ''Failed to retrieve data from IPFS'')
                 | Inr v \<Rightarrow> Inr v))
      else retrieveFromLocalStorage L cid w)"

section \<open>utils/web3.js\<close>

text \<open>
  A contract method called through ethers: the \<open>bytes32\<close> argument is encoded first, the
  node is asked next, and a revert comes back as a thrown error. The write is sent from
  the signer's address and is stamped by the chain; the read is a view.
\<close>

record receipt =
  transactionHash :: string
  blockNumber :: nat
  gasUsed :: string

definition contract_issueCertificate ::
  "node \<Rightarrow> ambient \<Rightarrow> address \<Rightarrow> string \<Rightarrow> string \<Rightarrow> world \<Rightarrow> world \<times> (js_error + receipt)" where
  "contract_issueCertificate L a sender hash cid w =
     (case bytes32_of hash of
        Inl e \<Rightarrow> (w, Inl e)
      | Inr h \<Rightarrow>
          (case rpc_failure w of
             Some m \<Rightarrow> (w, Inl (JsError m))
           | None \<Rightarrow>
               (case transact \<lparr>msg_sender = sender, block_timestamp = tx_timestamp a\<rparr>
                       (IssueCertificate h cid) (chain w) of
                  (c, Inl r) \<Rightarrow> (w, Inl (JsError (ethers_message L r)))
                | (c, Inr v) \<Rightarrow>
                    (w\<lparr>chain := c\<rparr>,
                     Inr \<lparr>transactionHash = tx_hash a, blockNumber = tx_blockNumber a,
                          gasUsed = decimal (tx_gasUsed a)\<rparr>))))"

definition web3_issueCertificate ::
  "node \<Rightarrow> ambient \<Rightarrow> string \<Rightarrow> string \<Rightarrow> world \<Rightarrow> world \<times> (js_error + receipt)" where
  "web3_issueCertificate L a hash cid w =
     (case signer w of
        None \<Rightarrow> (w, Inl (JsError ''Contract not initialized or no signer available''))
      | Some sender \<Rightarrow>
          if \<not> contract w
          then (w, Inl (JsError ''Contract not initialized or no signer available''))
          else (case contract_issueCertificate L a sender hash cid w of
                  (w', Inl e) \<Rightarrow>
                    (w', Inl (JsError (''Failed to issue certificate: '' @ message e)))
                | (w', Inr r) \<Rightarrow> (w', Inr r)))"

text \<open>
  What \<open>verifyCertificate\<close> of \<open>web3.js\<close> returns. The timestamp is the decimal string
  of the \<open>uint256\<close>; the record keeps the number and the routes print it.
\<close>

record certData =
  exists' :: bool
  ipfsCID' :: string
  issuer' :: string
  timestamp' :: nat

definition contract_verifyCertificate ::
  "string \<Rightarrow> world \<Rightarrow> js_error + bool \<times> string \<times> address \<times> uint256" where
  "contract_verifyCertificate hash w =
     (case bytes32_of hash of
        Inl e \<Rightarrow> Inl e
      | Inr h \<Rightarrow>
          (case rpc_failure w of
             Some m \<Rightarrow> Inl (JsError m)
           | None \<Rightarrow> Inr (verifyCertificate (chain w) h)))"

definition web3_verifyCertificate :: "node \<Rightarrow> string \<Rightarrow> world \<Rightarrow> js_error + certData" where
  "web3_verifyCertificate L hash w =
     (if \<not> contract w then Inl (JsError ''Contract not initialized'')
      else (case contract_verifyCertificate hash w of
              Inl e \<Rightarrow> Inl (JsError (''Failed to verify certificate: '' @ message e))
            | Inr (ex, cid, iss, ts) \<Rightarrow>
                Inr \<lparr>exists' = ex, ipfsCID' = cid, issuer' = ethers_address L iss,
                     timestamp' = unat ts\<rparr>))"

definition getSignerAddress :: "node \<Rightarrow> world \<Rightarrow> json" where
  "getSignerAddress L w =
     (case signer w of None \<Rightarrow> JNull | Some s \<Rightarrow> JString (ethers_address L s))"

section \<open>db/database.js\<close>

text \<open>
  \<open>insertTransaction\<close> appends a row. The insert is rejected when the database fails,
  when one of the columns declared \<open>NOT NULL\<close> gets no value (an \<open>undefined\<close> or \<open>null\<close>
  parameter is bound as \<open>NULL\<close>), or when a row with the same \<open>txHash\<close> is there (the
  column is \<open>UNIQUE\<close>); SQLite checks the columns in the order of the table.
\<close>

definition txHash_of :: "json \<Rightarrow> json option" where
  "txHash_of row = (case row of JObject kvs \<Rightarrow> map_of kvs ''txHash'' | _ \<Rightarrow> None)"

definition column_is_null :: "json \<Rightarrow> string \<Rightarrow> bool" where
  "column_is_null row k =
     (case row of
        JObject kvs \<Rightarrow> (case map_of kvs k of None \<Rightarrow> True | Some v \<Rightarrow> v = JNull)
      | _ \<Rightarrow> True)"

definition not_null_columns :: "string list" where
  "not_null_columns = [''txHash'', ''docHash'', ''ipfsCID'', ''issuer'', ''timestamp'']"

definition insertTransaction :: "json \<Rightarrow> world \<Rightarrow> world \<times> (js_error + nat)" where
  "insertTransaction transaction w =
     (case db_failure w of
        Some m \<Rightarrow> (w, Inl (JsError m))
      | None \<Rightarrow>
          (case List.find (column_is_null transaction) not_null_columns of
             Some k \<Rightarrow>
               (w, Inl (JsError (''SQLITE_CONSTRAINT: NOT NULL constraint failed: transactions.''
                                  @ k)))
           | None \<Rightarrow>
               if txHash_of transaction \<in> set (map txHash_of (db_rows w))
               then (w, Inl (JsError
                       ''SQLITE_CONSTRAINT: UNIQUE constraint failed: transactions.txHash''))
               else (w\<lparr>db_rows := db_rows w @ [transaction]\<rparr>,
                     Inr (Suc (length (db_rows w))))))"

section \<open>routes/certificate.js\<close>

text \<open>
  The form as it is sent: its text fields, and its file parts in the order of the
  stream, each with the name of its field. \<open>request\<close> is what the handler sees once
  the upload middleware has run: the same text fields in \<open>req.body\<close>, and \<open>req.file\<close>.
\<close>

record form =
  studentName :: "string option"
  courseName :: "string option"
  institution :: "string option"
  issueDate :: "string option"
  grade :: "string option"
  additionalInfo :: "string option"

record request = form +
  req_file :: "Buffer option"

record submission = form +
  file_parts :: "(string \<times> Buffer) list"

datatype response = Response (status: nat) (body: json)

text \<open>\<open>!v\<close> for a form field: the field was not sent, or it is the empty string.\<close>

definition falsy :: "string option \<Rightarrow> bool" where
  "falsy v = (v = None \<or> v = Some [])"

definition metadata_of :: "request \<Rightarrow> json" where
  "metadata_of req =
     JObject (List.map_filter (\<lambda>(k, v). map_option (\<lambda>s. (k, JString s)) v)
       [(''studentName'', studentName req), (''courseName'', courseName req),
        (''institution'', institution req), (''issueDate'', issueDate req),
        (''grade'', grade req), (''additionalInfo'', additionalInfo req)])"

text \<open>\<open>process.env.AES_ENCRYPTION_KEY || 'default-key-change-this-in-production'\<close>\<close>

definition encryptionKey_of :: "world \<Rightarrow> string" where
  "encryptionKey_of w =
     (case AES_ENCRYPTION_KEY w of
        None \<Rightarrow> ''default-key-change-this-in-production''
      | Some k \<Rightarrow> if k = [] then ''default-key-change-this-in-production'' else k)"

definition failed :: "string \<Rightarrow> js_error \<Rightarrow> response" where
  "failed what e =
     Response 500 (JObject [(''error'', JString what), (''details'', JString (message e))])"

text \<open>
  \<open>upload.single('certificate')\<close> of multer, with memory storage and the \<open>fileSize\<close> limit of
  10 MB. The field named is allowed one file and every other field none: a file part
  beyond that is refused with "Unexpected field", an allowed one longer than the limit
  with "File too large" (one of exactly the limit too, where the parser counts so), and
  the first refusal in the stream ends the upload. Without a file part \<open>req.file\<close> stays
  \<open>undefined\<close>.
\<close>

fun single_file :: "bool \<Rightarrow> string \<Rightarrow> nat \<Rightarrow> Buffer option \<Rightarrow> (string \<times> Buffer) list
    \<Rightarrow> js_error + Buffer option" where
  "single_file strict name limit got [] = Inr got"
| "single_file strict name limit got ((field, content) # rest) =
     (if field \<noteq> name \<or> got \<noteq> None then Inl (JsError ''Unexpected field'')
      else if limit < length content \<or> (strict \<and> length content = limit)
      then Inl (JsError ''File too large'')
      else single_file strict name limit (Some content) rest)"

definition upload_single :: "node \<Rightarrow> submission \<Rightarrow> js_error + request" where
  "upload_single L sub =
     (case single_file (fileSize_exclusive L) ''certificate'' (10 * 1024 * 1024) None
             (file_parts sub) of
        Inl e \<Rightarrow> Inl e
      | Inr f \<Rightarrow>
          Inr \<lparr>studentName = studentName sub, courseName = courseName sub,
               institution = institution sub, issueDate = issueDate sub, grade = grade sub,
               additionalInfo = additionalInfo sub, req_file = f\<rparr>)"

text \<open>
  The error middleware of \<open>server.js\<close>, where an error of the upload lands: the error
  has no \<open>status\<close>, so the answer is 500 with its message, and with its stack when
  \<open>NODE_ENV\<close> is \<open>development\<close>.
\<close>

definition error_middleware :: "node \<Rightarrow> world \<Rightarrow> js_error \<Rightarrow> response" where
  "error_middleware L w e =
     Response 500 (JObject
       ((''error'', JString (if message e = [] then ''Internal server error'' else message e))
        # (if NODE_ENV w = Some ''development'' then [(''stack'', JString (error_stack L e))]
           else [])))"

text \<open>
  \<open>POST /api/issue\<close>. The handler is written as its three stretches: the guards and the
  validation (\<open>issue_handler\<close>), the steps from hashing to the ledger call
  (\<open>issue_pipeline\<close>), and the audit row with the answer (\<open>issue_respond\<close>). Every
  \<open>await\<close> that throws lands in the handler's \<open>catch\<close>, which answers 500; what was
  written before the throw stays written.
\<close>

definition issue_respond ::
  "node \<Rightarrow> ambient \<Rightarrow> string \<Rightarrow> string \<Rightarrow> receipt \<Rightarrow> world \<Rightarrow> world \<times> response" where
  "issue_respond L a hash cid txReceipt w2 =
     (let issuerAddress = getSignerAddress L w2
      in (case insertTransaction
                (JObject [(''txHash'', JString (transactionHash txReceipt)),
                          (''docHash'', JString hash),
                          (''ipfsCID'', JString cid),
                          (''issuer'', issuerAddress),
                          (''timestamp'', JNumber (int (Date_now_insert a div 1000))),
                          (''status'', JString ''confirmed''),
                          (''blockNumber'', JNumber (int (blockNumber txReceipt))),
                          (''gasUsed'', JString (gasUsed txReceipt))]) w2 of
            (w3, Inl e) \<Rightarrow> (w3, failed ''Failed to issue certificate'' e)
          | (w3, Inr rowid) \<Rightarrow>
              (w3, Response 200 (JObject
                 [(''success'', JBool True),
                  (''message'', JString ''Certificate issued successfully''),
                  (''data'', JObject
                     [(''docHash'', JString hash),
                      (''ipfsCID'', JString cid),
                      (''transactionHash'', JString (transactionHash txReceipt)),
                      (''blockNumber'', JNumber (int (blockNumber txReceipt))),
                      (''issuer'', issuerAddress)])]))))"

definition issue_pipeline ::
  "node \<Rightarrow> ambient \<Rightarrow> Buffer \<Rightarrow> json \<Rightarrow> world \<Rightarrow> world \<times> response" where
  "issue_pipeline L a buffer metadata w =
     (let hash = hashDocumentForBlockchain L buffer;
          encryptionKey = encryptionKey_of w;
          encryptedData = encryptMetadata L (randomBytes16 a) metadata encryptionKey
      in (case uploadToIPFS L a (json_of_encrypted encryptedData) w of
            (w1, Inl e) \<Rightarrow> (w1, failed ''Failed to issue certificate'' e)
          | (w1, Inr cid) \<Rightarrow>
              (case web3_issueCertificate L a hash cid w1 of
                 (w2, Inl e) \<Rightarrow> (w2, failed ''Failed to issue certificate'' e)
               | (w2, Inr txReceipt) \<Rightarrow> issue_respond L a hash cid txReceipt w2)))"

definition issue_handler :: "node \<Rightarrow> ambient \<Rightarrow> request \<Rightarrow> world \<Rightarrow> world \<times> response" where
  "issue_handler L a req w =
     (if \<not> web3Ready w
      then (w, Response 503 (JObject [(''error'', JString ''Web3 not initialized'')]))
      else (case req_file req of
         None \<Rightarrow> (w, Response 400 (JObject [(''error'', JString ''No certificate file provided'')]))
       | Some buffer \<Rightarrow>
           let metadata = metadata_of req
           in if falsy (studentName req) \<or> falsy (courseName req) \<or> falsy (institution req)
              then (w, Response 400
                         (JObject [(''error'', JString ''Missing required metadata fields'')]))
              else issue_pipeline L a buffer metadata w))"

text \<open>The route: the upload middleware, then the handler.\<close>

definition issue_route :: "node \<Rightarrow> ambient \<Rightarrow> submission \<Rightarrow> world \<Rightarrow> world \<times> response" where
  "issue_route L a sub w =
     (case upload_single L sub of
        Inl e \<Rightarrow> (w, error_middleware L w e)
      | Inr req \<Rightarrow> issue_handler L a req w)"

text \<open>
  The inner \<open>try\<close> of the verification routes: fetch the blob the ledger points to, read
  its \<open>encrypted\<close> and \<open>iv\<close>, decrypt with the configured key.
\<close>

definition retrieve_and_decrypt :: "node \<Rightarrow> string \<Rightarrow> world \<Rightarrow> js_error + json" where
  "retrieve_and_decrypt L cid w =
     (case retrieveFromIPFS L cid w of
        Inl e \<Rightarrow> Inl e
      | Inr encryptedData \<Rightarrow>
          (case member encryptedData ''encrypted'' of
             Inl e \<Rightarrow> Inl e
           | Inr enc \<Rightarrow>
               (case member encryptedData ''iv'' of
                  Inl e \<Rightarrow> Inl e
                | Inr ivHex \<Rightarrow> decryptMetadata L enc ivHex (encryptionKey_of w))))"

text \<open>
  \<open>new Date(parseInt(timestamp) * 1000).toISOString()\<close>. A \<open>Date\<close> holds at most
  8.64e15 milliseconds; beyond that it is invalid and \<open>toISOString\<close> throws a
  \<open>RangeError\<close>. Up to that bound the product is below 2^53 and exact, and above it the
  rounded product stays above it, so the test on the integers is the test the code makes.
\<close>

definition issuedDate_of :: "node \<Rightarrow> nat \<Rightarrow> js_error + string" where
  "issuedDate_of L seconds =
     (if 8640000000000000 < seconds * 1000 then Inl (JsError ''Invalid time value'')
      else Inr (Date_toISOString L (seconds * 1000)))"

text \<open>\<open>POST /api/verify\<close>. The handler reads; it writes nothing.\<close>

definition verify_handler :: "node \<Rightarrow> request \<Rightarrow> world \<Rightarrow> response" where
  "verify_handler L req w =
     (if \<not> web3Ready w
      then Response 503 (JObject [(''error'', JString ''Web3 not initialized'')])
      else (case req_file req of
         None \<Rightarrow> Response 400 (JObject [(''error'', JString ''No certificate file provided'')])
       | Some buffer \<Rightarrow>
           let hash = hashDocumentForBlockchain L buffer
           in (case web3_verifyCertificate L hash w of
                 Inl e \<Rightarrow> failed ''Failed to verify certificate'' e
               | Inr cert \<Rightarrow>
                   if \<not> exists' cert
                   then Response 200 (JObject
                          [(''valid'', JBool False),
                           (''message'', JString ''Certificate not found on blockchain''),
                           (''docHash'', JString hash)])
                   else
                     let metadata = (case retrieve_and_decrypt L (ipfsCID' cert) w of
                                       Inl e \<Rightarrow> JNull
                                     | Inr m \<Rightarrow> m)
                     in (case issuedDate_of L (timestamp' cert) of
                           Inl e \<Rightarrow> failed ''Failed to verify certificate'' e
                         | Inr issuedDate \<Rightarrow>
                             Response 200 (JObject
                               [(''valid'', JBool True),
                                (''message'', JString ''Certificate is valid''),
                                (''certificate'', JObject
                                   [(''docHash'', JString hash),
                                    (''issuer'', JString (issuer' cert)),
                                    (''timestamp'', JString (decimal (timestamp' cert))),
                                    (''ipfsCID'', JString (ipfsCID' cert)),
                                    (''metadata'', metadata),
                                    (''issuedDate'', JString issuedDate)])])))))"

definition verify_route :: "node \<Rightarrow> submission \<Rightarrow> world \<Rightarrow> response" where
  "verify_route L sub w =
     (case upload_single L sub of
        Inl e \<Rightarrow> error_middleware L w e
      | Inr req \<Rightarrow> verify_handler L req w)"

section \<open>What is assumed of the libraries\<close>

text \<open>
  \<open>library_inverts\<close>: on this key, vector and record, the library's decipher returns what
  its cipher was given, and \<open>JSON.parse\<close> returns what \<open>JSON.stringify\<close> was given.
  \<open>blob_readable\<close>: \<open>JSON.parse\<close> returns the blob that \<open>JSON.stringify\<close> with indentation
  printed, and the content identifier the IPFS node gives it does not begin with
  \<open>local-\<close> (the prefix of the names the local store generates).
\<close>

definition library_inverts :: "node \<Rightarrow> 128 word \<Rightarrow> json \<Rightarrow> string \<Rightarrow> bool" where
  "library_inverts L random data key =
     (aes_256_cbc_decrypt L (sha256 L (utf8 key)) (bytes_be 16 (unat random))
        (aes_256_cbc_encrypt L (sha256 L (utf8 key)) (bytes_be 16 (unat random))
           (utf8 (JSON_stringify L data)))
        = Inr (utf8 (JSON_stringify L data))
      \<and> JSON_parse L (JSON_stringify L data) = Inr data)"

definition blob_readable :: "node \<Rightarrow> json \<Rightarrow> bool" where
  "blob_readable L blob =
     (JSON_parse L (JSON_stringify_indent L blob) = Inr blob
      \<and> \<not> prefix ''local-'' (ipfs_cid L (JSON_stringify_indent L blob)))"

subsection \<open>A concrete deployment\<close>

text \<open>
  Account 1 deploys the registry and issues a certificate for fingerprint 7; account 2 is
  a second party. These states are the inputs at which the theorems below are instantiated.
\<close>

definition deployer :: env where
  "deployer = \<lparr>msg_sender = 1, block_timestamp = 1700000000\<rparr>"

definition genesis :: registry where
  "genesis = \<lparr>owner = 1, certificates = (\<lambda>_. zeroCertificate),
     authorizedIssuers = (\<lambda>_. False)(1 := True),
     events = [OwnershipTransferred 0 1, IssuerAdded 1 1700000000]\<rparr>"

definition issued :: registry where
  "issued = genesis\<lparr>certificates := (certificates genesis)(7 :=
       \<lparr>docHash = 7, ipfsCID = ''Qm'', issuer = 1, timestamp = 1700000000, exists = True\<rparr>),
     events := events genesis @ [CertificateIssued 7 ''Qm'' 1 1700000000]\<rparr>"

definition stranger :: env where
  "stranger = \<lparr>msg_sender = 2, block_timestamp = 1700000100\<rparr>"

definition history :: "(env \<times> call) list" where
  "history = [(deployer, AddAuthorizedIssuer 2), (stranger, IssueCertificate 7 ''Zz''),
     (stranger, IssueCertificate 9 ''Qn''), (deployer, RemoveAuthorizedIssuer 2),
     (stranger, VerifyCertificate 7)]"

subsection \<open>A concrete backend\<close>

text \<open>
  A stand-in library whose cipher is the identity and whose printers return fixed
  texts, and a second one that parses those two texts back; a form with the three
  required fields and one file, and the request the upload middleware makes of it; the
  state of a backend that is connected to the deployment above, signs as account 1 and
  stores blobs locally.
\<close>

definition application :: request where
  "application = \<lparr>studentName = Some ''Ada'', courseName = Some ''Logic'',
     institution = Some ''Kings'', issueDate = None, grade = None, additionalInfo = None,
     req_file = Some [1, 2, 3]\<rparr>"

definition submitted :: submission where
  "submitted = \<lparr>studentName = Some ''Ada'', courseName = Some ''Logic'',
     institution = Some ''Kings'', issueDate = None, grade = None, additionalInfo = None,
     file_parts = [(''certificate'', [1, 2, 3])]\<rparr>"

definition plain :: node where
  "plain = \<lparr>sha256 = (\<lambda>b. 7),
     aes_256_cbc_encrypt = (\<lambda>k v p. p),
     aes_256_cbc_decrypt = (\<lambda>k v c. Inr c),
     JSON_stringify = (\<lambda>j. ''m''),
     JSON_stringify_indent = (\<lambda>j. ''b''),
     JSON_parse = (\<lambda>s. Inl (JsError ''Unexpected token'')),
     Buffer_from_object = (\<lambda>j. Inl (JsError ''The first argument must be of type string'')),
     Date_toISOString = (\<lambda>ms. ''2023-11-14T22:13:20.000Z''),
     ipfs_cid = (\<lambda>s. ''Qm''),
     ethers_message = (\<lambda>r. ''execution reverted''),
     ethers_address = (\<lambda>a. ''0x01''),
     error_stack = (\<lambda>e. ''Error: '' @ message e),
     fileSize_exclusive = True\<rparr>"

definition reading :: node where
  "reading = plain\<lparr>JSON_parse := (\<lambda>s.
     if s = ''m''
     then Inr (JObject [(''studentName'', JString ''Ada''), (''courseName'', JString ''Logic''),
                        (''institution'', JString ''Kings'')])
     else if s = ''b''
       then Inr (JObject [(''encrypted'', JString ''6d''),
                          (''iv'', JString ''00000000000000000000000000000000''),
                          (''algorithm'', JString ''aes-256-cbc'')])
       else Inl (JsError ''Unexpected token''))\<rparr>"

definition moment :: ambient where
  "moment = \<lparr>randomBytes16 = 0, Date_now = 1700000000123, Math_random = ''k3x9'',
     Date_now_insert = 1700000004567, tx_timestamp = 1700000000, tx_hash = ''0xabc'',
     tx_blockNumber = 2, tx_gasUsed = 90000\<rparr>"

definition office :: world where
  "office = \<lparr>USE_IPFS = False, ipfsClient = False, ipfs_online = False,
     ipfs_blocks = Map.empty, fs_writable = True, fs_files = Map.empty,
     contract = True, signer = Some 1, rpc_failure = None, chain = genesis,
     web3Ready = True, db_failure = None, db_rows = [], AES_ENCRYPTION_KEY = None,
     NODE_ENV = None\<rparr>"

text \<open>
  The same backend just after its start, before \<open>initWeb3\<close> has finished, on a chain that
  already holds the record of the file; and a transaction mined in a block stamped one
  second past the last time a JavaScript \<open>Date\<close> can hold.
\<close>

definition starting :: world where
  "starting = office\<lparr>contract := False, signer := None, web3Ready := False, chain := issued\<rparr>"

definition late :: ambient where
  "late = moment\<lparr>tx_timestamp := 8640000000001\<rparr>"

section \<open>Properties of the registry ledger\<close>

lemmas reg_defs = issueCertificate_def addAuthorizedIssuer_def removeAuthorizedIssuer_def
  onlyOwner_def onlyAuthorizedIssuer_def require_def commit_def

lemma transact_certificates_kept:
  "exists (certificates s h) \<Longrightarrow> certificates (fst (transact e c s)) h = certificates s h"
  by (cases c) (auto simp: reg_defs)

lemma run_certificates_kept:
  "exists (certificates s h) \<Longrightarrow> certificates (run cs s) h = certificates s h"
proof (induction cs arbitrary: s)
  case Nil
  then show ?case by simp
next
  case (Cons x cs)
  obtain e c where x: "x = (e, c)" by (cases x)
  have k: "certificates (fst (transact e c s)) h = certificates s h"
    using Cons.prems by (rule transact_certificates_kept)
  then have "exists (certificates (fst (transact e c s)) h)" using Cons.prems by simp
  then have "certificates (run cs (fst (transact e c s))) h = certificates (fst (transact e c s)) h"
    by (rule Cons.IH)
  with k x show ?case by simp
qed

lemma issue_success_record:
  "issueCertificate e h cid s = Inr s1 \<Longrightarrow>
     certificates s1 h = \<lparr>docHash = h, ipfsCID = cid, issuer = msg_sender e,
                  timestamp = block_timestamp e, exists = True\<rparr>"
  by (auto simp: reg_defs split: if_splits)

lemma issue_rejected_if_exists:
  "exists (certificates s h) \<Longrightarrow> transact e (IssueCertificate h cid) s = 
     (s, Inl (Error (if \<not> authorizedIssuers s (msg_sender e) then ''Not an authorized issuer''
           else if h = 0 then ''Invalid document hash''
           else if cid = [] then ''Invalid IPFS CID'' else ''Certificate already exists'')))"
  by (simp add: reg_defs)

text \<open>
  Claim C1. The ledger is append-only per key. Once \<open>issueCertificate\<close> has written the
  record of a fingerprint \<open>h\<close>, no later history of transactions (issuing, authorizing,
  revoking, reading, by any callers) changes or removes that record; every later attempt
  to issue \<open>h\<close> again reverts and commits nothing, and repeating the same call right
  after the first one reverts with "Certificate already exists", leaving the state that
  the first issue produced.
\<close>

theorem ledger_append_only:
  assumes "issueCertificate e h cid s = Inr s1"
  shows "certificates (run cs s1) h = certificates s1 h
       \<and> certificates s1 h = \<lparr>docHash = h, ipfsCID = cid, issuer = msg_sender e,
                  timestamp = block_timestamp e, exists = True\<rparr>
       \<and> isl (snd (transact e' (IssueCertificate h cid') (run cs s1)))
       \<and> fst (transact e' (IssueCertificate h cid') (run cs s1)) = run cs s1
       \<and> transact e (IssueCertificate h cid) s1 = (s1, Inl (Error ''Certificate already exists''))"
proof -
  have r: "certificates s1 h = \<lparr>docHash = h, ipfsCID = cid, issuer = msg_sender e,
                  timestamp = block_timestamp e, exists = True\<rparr>"
    using assms by (rule issue_success_record)
  then have x: "exists (certificates s1 h)" by simp
  then have k: "certificates (run cs s1) h = certificates s1 h" by (rule run_certificates_kept)
  with x have x': "exists (certificates (run cs s1) h)" by simp
  have a: "authorizedIssuers s1 (msg_sender e) \<and> h \<noteq> 0 \<and> cid \<noteq> []"
    using assms by (auto simp: reg_defs split: if_splits)
  have "transact e (IssueCertificate h cid) s1 = (s1, Inl (Error ''Certificate already exists''))"
    using a issue_rejected_if_exists [OF x, of e cid] by simp
  moreover have "isl (snd (transact e' (IssueCertificate h cid') (run cs s1)))"
      and "fst (transact e' (IssueCertificate h cid') (run cs s1)) = run cs s1"
    using issue_rejected_if_exists [OF x', of e' cid'] by simp_all
  ultimately show ?thesis using r k by simp
qed

lemma issued_ok: "issueCertificate deployer 7 ''Qm'' genesis = Inr issued"
  by (simp add: reg_defs deployer_def genesis_def issued_def zeroCertificate_def)

theorem ledger_append_only_witness:
  "issueCertificate deployer 7 ''Qm'' genesis = Inr issued
   \<and> certificates (run history issued) 7 = certificates issued 7
   \<and> certificates issued 7 = \<lparr>docHash = 7, ipfsCID = ''Qm'', issuer = 1,
                  timestamp = 1700000000, exists = True\<rparr>
   \<and> isl (snd (transact stranger (IssueCertificate 7 ''Zz'') (run history issued)))
   \<and> fst (transact stranger (IssueCertificate 7 ''Zz'') (run history issued)) = run history issued
   \<and> transact deployer (IssueCertificate 7 ''Qm'') issued = (issued, Inl (Error ''Certificate already exists''))"
  using ledger_append_only [OF issued_ok, of history stranger "''Zz''"] issued_ok
  by (simp add: deployer_def)

text \<open>
  Claim C3. \<open>issueCertificate\<close> reverts with "Not an authorized issuer" when the caller
  is not a trusted writer, with "Invalid document hash" when the fingerprint is zero, with
  "Invalid IPFS CID" when the blob reference is empty, and with "Certificate already
  exists" when the fingerprint already has a record; the checks run in this order, so the
  first that fails names the error. When none fails the call writes the record with the
  caller as issuer and the block time as timestamp, leaves every other record and the
  writers alone, and appends a \<open>CertificateIssued\<close> event to the log.
\<close>

theorem issue_checks_in_order:
  "(\<not> authorizedIssuers s (msg_sender e) \<longrightarrow>
      issueCertificate e h cid s = Inl (Error ''Not an authorized issuer''))
 \<and> (authorizedIssuers s (msg_sender e) \<and> h = 0 \<longrightarrow>
      issueCertificate e h cid s = Inl (Error ''Invalid document hash''))
 \<and> (authorizedIssuers s (msg_sender e) \<and> h \<noteq> 0 \<and> cid = [] \<longrightarrow>
      issueCertificate e h cid s = Inl (Error ''Invalid IPFS CID''))
 \<and> (authorizedIssuers s (msg_sender e) \<and> h \<noteq> 0 \<and> cid \<noteq> [] \<and> exists (certificates s h) \<longrightarrow>
      issueCertificate e h cid s = Inl (Error ''Certificate already exists''))
 \<and> (authorizedIssuers s (msg_sender e) \<and> h \<noteq> 0 \<and> cid \<noteq> [] \<and> \<not> exists (certificates s h) \<longrightarrow>
      (\<exists>s'. issueCertificate e h cid s = Inr s'
          \<and> certificates s' h = \<lparr>docHash = h, ipfsCID = cid, issuer = msg_sender e,
                                  timestamp = block_timestamp e, exists = True\<rparr>
          \<and> (\<forall>h'. h' \<noteq> h \<longrightarrow> certificates s' h' = certificates s h')
          \<and> events s' = events s @ [CertificateIssued h cid (msg_sender e) (block_timestamp e)]
          \<and> authorizedIssuers s' = authorizedIssuers s \<and> owner s' = owner s))"
  by (simp add: reg_defs)

theorem issue_checks_in_order_witness:
  "\<not> authorizedIssuers genesis (msg_sender stranger)
   \<and> issueCertificate stranger 7 ''Qm'' genesis = Inl (Error ''Not an authorized issuer'')
   \<and> authorizedIssuers genesis (msg_sender deployer)
   \<and> issueCertificate deployer 0 ''Qm'' genesis = Inl (Error ''Invalid document hash'')
   \<and> issueCertificate deployer 7 [] genesis = Inl (Error ''Invalid IPFS CID'')
   \<and> exists (certificates issued 7)
   \<and> issueCertificate deployer 7 ''Qm'' issued = Inl (Error ''Certificate already exists'')
   \<and> \<not> exists (certificates genesis 7)
   \<and> (\<exists>s'. issueCertificate deployer 7 ''Qm'' genesis = Inr s'
          \<and> certificates s' 7 = \<lparr>docHash = 7, ipfsCID = ''Qm'', issuer = msg_sender deployer,
                                  timestamp = block_timestamp deployer, exists = True\<rparr>
          \<and> (\<forall>h'. h' \<noteq> 7 \<longrightarrow> certificates s' h' = certificates genesis h')
          \<and> events s' = events genesis @ [CertificateIssued 7 ''Qm'' (msg_sender deployer) (block_timestamp deployer)]
          \<and> authorizedIssuers s' = authorizedIssuers genesis \<and> owner s' = owner genesis)"
proof -
  have a: "\<not> authorizedIssuers genesis (msg_sender stranger)"
    by (simp add: genesis_def stranger_def)
  have b: "authorizedIssuers genesis (msg_sender deployer)"
    by (simp add: genesis_def deployer_def)
  have c: "exists (certificates issued 7)" "authorizedIssuers issued (msg_sender deployer)"
    by (simp_all add: issued_def genesis_def deployer_def)
  have d: "\<not> exists (certificates genesis 7)"
    by (simp add: genesis_def zeroCertificate_def)
  show ?thesis
    using a b c d
      issue_checks_in_order [of genesis stranger 7 "''Qm''"]
      issue_checks_in_order [of genesis deployer 0 "''Qm''"]
      issue_checks_in_order [of genesis deployer 7 "[]"]
      issue_checks_in_order [of issued deployer 7 "''Qm''"]
      issue_checks_in_order [of genesis deployer 7 "''Qm''"]
    by simp
qed


text \<open>
  Claim C5. For a caller that is not a trusted writer, and any fingerprint and blob
  reference, \<open>issueCertificate\<close> reverts with "Not an authorized issuer" and the
  transaction leaves the whole ledger state (records, writers, owner, log) as it was.
\<close>

theorem untrusted_issue_rejected:
  assumes "\<not> authorizedIssuers s (msg_sender e)"
  shows "issueCertificate e h cid s = Inl (Error ''Not an authorized issuer'')
       \<and> transact e (IssueCertificate h cid) s = (s, Inl (Error ''Not an authorized issuer''))"
  using assms by (simp add: reg_defs)

theorem untrusted_issue_rejected_witness:
  "\<not> authorizedIssuers issued (msg_sender stranger)
   \<and> issueCertificate stranger 9 ''Qn'' issued = Inl (Error ''Not an authorized issuer'')
   \<and> transact stranger (IssueCertificate 9 ''Qn'') issued
       = (issued, Inl (Error ''Not an authorized issuer''))"
proof -
  have a: "\<not> authorizedIssuers issued (msg_sender stranger)"
    by (simp add: issued_def genesis_def stranger_def)
  show ?thesis using a untrusted_issue_rejected [OF a, of 9 "''Qn''"] by (simp add: commit_def)
qed

text \<open>
  Claim C6. When the owner revokes a trusted writer \<open>w\<close>, the revocation goes through,
  every certificate record is as before, so a lookup of any fingerprint returns what it
  returned before the revocation, and every issue call that \<open>w\<close> makes on the new state
  reverts with "Not an authorized issuer" and commits nothing.
\<close>

theorem revoke_keeps_records:
  assumes "owner s = msg_sender e" and "authorizedIssuers s w"
  shows "\<exists>s'. transact e (RemoveAuthorizedIssuer w) s = (s', Inr Done)
       \<and> certificates s' = certificates s
       \<and> snd (transact e1 (VerifyCertificate h) s') = snd (transact e1 (VerifyCertificate h) s)
       \<and> (\<forall>e2 h2 cid2. msg_sender e2 = w \<longrightarrow>
            transact e2 (IssueCertificate h2 cid2) s' = (s', Inl (Error ''Not an authorized issuer'')))"
  using assms by (simp add: reg_defs verifyCertificate_def)

theorem revoke_keeps_records_witness:
  "owner issued = msg_sender deployer \<and> authorizedIssuers issued 1
   \<and> (\<exists>s'. transact deployer (RemoveAuthorizedIssuer 1) issued = (s', Inr Done)
       \<and> certificates s' = certificates issued
       \<and> snd (transact stranger (VerifyCertificate 7) s')
           = snd (transact stranger (VerifyCertificate 7) issued)
       \<and> (\<forall>e2 h2 cid2. msg_sender e2 = 1 \<longrightarrow>
            transact e2 (IssueCertificate h2 cid2) s' = (s', Inl (Error ''Not an authorized issuer''))))"
proof -
  have a: "owner issued = msg_sender deployer" and b: "authorizedIssuers issued 1"
    by (simp_all add: issued_def genesis_def deployer_def)
  show ?thesis using a b revoke_keeps_records [OF a b, of stranger 7] by simp
qed

lemma constructor_blank:
  "constructor e0 = Inr s0 \<Longrightarrow> \<not> exists (certificates s0 h) \<longrightarrow> certificates s0 h = zeroCertificate"
  by (auto simp: constructor_def split: if_splits)

lemma transact_blank:
  assumes "\<not> exists (certificates s h) \<longrightarrow> certificates s h = zeroCertificate"
  shows "\<not> exists (certificates (fst (transact e c s)) h) \<longrightarrow>
           certificates (fst (transact e c s)) h = zeroCertificate"
  using assms by (cases c) (auto simp: reg_defs)

lemma run_blank:
  "\<not> exists (certificates s h) \<longrightarrow> certificates s h = zeroCertificate \<Longrightarrow>
   \<not> exists (certificates (run cs s) h) \<longrightarrow> certificates (run cs s) h = zeroCertificate"
proof (induction cs arbitrary: s)
  case Nil
  then show ?case by simp
next
  case (Cons x cs)
  obtain e c where x: "x = (e, c)" by (cases x)
  have "\<not> exists (certificates (fst (transact e c s)) h) \<longrightarrow>
           certificates (fst (transact e c s)) h = zeroCertificate"
    using Cons.prems by (rule transact_blank)
  then show ?case unfolding x run.simps by (rule Cons.IH)
qed

text \<open>
  Claim C7. In every state the deployed contract can reach, \<open>verifyCertificate\<close> answers
  any caller for any fingerprint without reverting and without changing the state. For a
  fingerprint with a record it returns the flag true with the stored reference, issuer
  and timestamp (those written by the issue call, whatever happened since); for a
  fingerprint without a record it returns the zero-valued answer: false, the empty
  string, the zero address and timestamp zero.
\<close>

theorem lookup_total:
  assumes "constructor e0 = Inr s0"
  shows "fst (transact e (VerifyCertificate h) (run cs s0)) = run cs s0
       \<and> (\<exists>b r i t. snd (transact e (VerifyCertificate h) (run cs s0)) = Inr (Verified (b, r, i, t)))
       \<and> (\<not> exists (certificates (run cs s0) h) \<longrightarrow>
            snd (transact e (VerifyCertificate h) (run cs s0)) = Inr (Verified (False, [], 0, 0)))
       \<and> (exists (certificates (run cs s0) h) \<longrightarrow>
            snd (transact e (VerifyCertificate h) (run cs s0)) =
              Inr (Verified (True, ipfsCID (certificates (run cs s0) h),
                   issuer (certificates (run cs s0) h), timestamp (certificates (run cs s0) h))))
       \<and> (\<forall>e1 cid s1 cs'. issueCertificate e1 h cid (run cs s0) = Inr s1 \<longrightarrow>
            snd (transact e (VerifyCertificate h) (run cs' s1)) =
              Inr (Verified (True, cid, msg_sender e1, block_timestamp e1)))"
proof -
  have z: "\<not> exists (certificates (run cs s0) h) \<longrightarrow> certificates (run cs s0) h = zeroCertificate"
    using constructor_blank [OF assms] by (rule run_blank)
  have i: "snd (transact e (VerifyCertificate h) (run cs' s1)) =
              Inr (Verified (True, cid, msg_sender e1, block_timestamp e1))"
    if "issueCertificate e1 h cid (run cs s0) = Inr s1" for e1 cid s1 cs'
  proof -
    have r: "certificates s1 h = \<lparr>docHash = h, ipfsCID = cid, issuer = msg_sender e1,
                  timestamp = block_timestamp e1, exists = True\<rparr>"
      using that by (rule issue_success_record)
    then have "exists (certificates s1 h)" by simp
    then have "certificates (run cs' s1) h = certificates s1 h" by (rule run_certificates_kept)
    with r show ?thesis by (simp add: verifyCertificate_def Let_def)
  qed
  show ?thesis using z i by (auto simp: verifyCertificate_def zeroCertificate_def Let_def)
qed

lemma genesis_ok: "constructor deployer = Inr genesis"
  by (simp add: constructor_def deployer_def genesis_def)

theorem lookup_total_witness:
  "constructor deployer = Inr genesis
   \<and> fst (transact stranger (VerifyCertificate 9) (run [(deployer, IssueCertificate 7 ''Qm'')] genesis))
        = run [(deployer, IssueCertificate 7 ''Qm'')] genesis
   \<and> \<not> exists (certificates (run [(deployer, IssueCertificate 7 ''Qm'')] genesis) 9)
   \<and> snd (transact stranger (VerifyCertificate 9) (run [(deployer, IssueCertificate 7 ''Qm'')] genesis))
        = Inr (Verified (False, [], 0, 0))
   \<and> exists (certificates (run [(deployer, IssueCertificate 7 ''Qm'')] genesis) 7)
   \<and> snd (transact stranger (VerifyCertificate 7) (run [(deployer, IssueCertificate 7 ''Qm'')] genesis))
        = Inr (Verified (True, ''Qm'', 1, 1700000000))
   \<and> issueCertificate deployer 7 ''Qm'' (run [] genesis) = Inr issued
   \<and> snd (transact stranger (VerifyCertificate 7) (run history issued))
        = Inr (Verified (True, ''Qm'', msg_sender deployer, block_timestamp deployer))"
proof -
  have r: "run [(deployer, IssueCertificate 7 ''Qm'')] genesis = issued"
    using issued_ok by (simp add: commit_def)
  have a: "\<not> exists (certificates issued 9)" and b: "exists (certificates issued 7)"
    and c: "certificates issued 7 = \<lparr>docHash = 7, ipfsCID = ''Qm'', issuer = 1,
                  timestamp = 1700000000, exists = True\<rparr>"
    by (simp_all add: issued_def genesis_def zeroCertificate_def)
  have d: "issueCertificate deployer 7 ''Qm'' (run [] genesis) = Inr issued"
    using issued_ok by simp
  show ?thesis
    using genesis_ok a b c d
      lookup_total [OF genesis_ok, of stranger 9 "[(deployer, IssueCertificate 7 ''Qm'')]"]
      lookup_total [OF genesis_ok, of stranger 7 "[(deployer, IssueCertificate 7 ''Qm'')]"]
      lookup_total [OF genesis_ok, of stranger 7 "[]"]
    unfolding r by simp
qed

section \<open>Encodings\<close>

text \<open>
  Hex printing and parsing, big-endian layout and the text encoding undo each other, so
  the fingerprint the routes print is the \<open>bytes32\<close> key the contract receives.
\<close>

lemma hexval_hexdigit: "n < 16 \<Longrightarrow> hexval (hexdigit n) = Some n"
  by (simp add: hexval_def hexdigit_def Let_def)

lemma byte_of_nibbles: "of_nat (16 * (unat b div 16) + unat b mod 16) = (b :: byte)"
  by simp

lemma from_hex_hexbyte: "from_hex (hexbyte b @ rest) = b # from_hex rest"
proof -
  have "unat b < 256" using unsigned_less [of b, where ?'a = nat] by simp
  then have "unat b div 16 < 16" by simp
  then show ?thesis
    by (simp add: hexbyte_def hexval_hexdigit)
qed

lemma from_hex_to_hex_append: "from_hex (to_hex bs @ rest) = bs @ from_hex rest"
  by (induction bs) (simp_all add: to_hex_def from_hex_hexbyte)

lemma from_hex_to_hex: "from_hex (to_hex bs) = bs"
  using from_hex_to_hex_append [of bs "[]"] by simp

lemma length_to_hex: "length (to_hex bs) = 2 * length bs"
  by (induction bs) (simp_all add: to_hex_def hexbyte_def)

lemma hexdigits_to_hex: "list_all (\<lambda>c. hexval c \<noteq> None) (to_hex bs)"
proof (induction bs)
  case Nil
  then show ?case by (simp add: to_hex_def)
next
  case (Cons b bs)
  have "unat b < 256" using unsigned_less [of b, where ?'a = nat] by simp
  then have "unat b div 16 < 16" by simp
  then show ?case using Cons by (simp add: to_hex_def hexbyte_def hexval_hexdigit)
qed

lemma length_bytes_be: "length (bytes_be n x) = n"
  by (induction n x rule: bytes_be.induct) simp_all

lemma nat_of_bytes_snoc: "nat_of_bytes (bs @ [b]) = 256 * nat_of_bytes bs + unat b"
  by (simp add: nat_of_bytes_def)

lemma nat_of_bytes_be: "nat_of_bytes (bytes_be n x) = x mod 256 ^ n"
proof (induction n x rule: bytes_be.induct)
  case (1 x)
  then show ?case by (simp add: nat_of_bytes_def)
next
  case (2 n x)
  have "unat (of_nat (x mod 256) :: byte) = x mod 256"
    by (simp add: unat_of_nat)
  then have "nat_of_bytes (bytes_be (Suc n) x) = 256 * ((x div 256) mod 256 ^ n) + x mod 256"
    using 2 by (simp add: nat_of_bytes_snoc)
  also have "\<dots> = x mod 256 ^ Suc n"
    by (simp add: mod_mult2_eq)
  finally show ?case .
qed

lemma bytes32_of_hashDocument:
  "bytes32_of (hashDocumentForBlockchain L fileBuffer) = Inr (sha256 L fileBuffer)"
proof -
  let ?d = "sha256 L fileBuffer"
  have "unat ?d < 2 ^ 256" using unsigned_less [of ?d, where ?'a = nat] by simp
  then have "unat ?d mod 256 ^ 32 = unat ?d" by simp
  then have "of_nat (nat_of_bytes (bytes_be 32 (unat ?d))) = ?d"
    by (simp add: nat_of_bytes_be)
  then show ?thesis
    using hexdigits_to_hex [of "bytes_be 32 (unat ?d)"]
    by (simp add: bytes32_of_def hashDocumentForBlockchain_def hashDocument_def
        length_to_hex length_bytes_be from_hex_to_hex)
qed

lemma char_of_unat_of_char: "char_of (unat (of_char c :: byte)) = c"
proof -
  have "unat (of_char c :: byte) = unat (of_nat (of_char c) :: byte)" by (simp only: of_nat_of_char)
  also have "\<dots> = of_char c mod 256" by (simp only: unat_of_nat) simp
  finally show ?thesis by simp
qed

lemma utf8_decode_utf8: "utf8_decode (utf8 s) = s"
  by (induction s) (simp_all add: utf8_def utf8_decode_def char_of_unat_of_char)

section \<open>The metadata cipher\<close>

lemma decrypt_encrypt:
  assumes "library_inverts L random data key"
  shows "decryptMetadata L (Some (JString (encrypted (encryptMetadata L random data key))))
           (Some (JString (iv (encryptMetadata L random data key)))) key = Inr data"
  using assms
  by (simp add: library_inverts_def decryptMetadata_def encryptMetadata_def Buffer_from_hex_def
      Let_def from_hex_to_hex length_to_hex length_bytes_be utf8_decode_utf8)

text \<open>A hex text of odd length is refused, whatever the key.\<close>

lemma decrypt_odd_hex:
  assumes "odd (length hex)"
  shows "\<exists>e. decryptMetadata L (Some (JString hex)) ivHex key = Inl e"
  using assms
  by (auto simp: decryptMetadata_def Let_def split: sum.splits)

text \<open>
  Both functions use the key string only through its SHA-256 digest, and neither looks at
  its length: two key strings with one digest are interchangeable.
\<close>

lemma decrypt_by_digest:
  "sha256 L (utf8 k1) = sha256 L (utf8 k2) \<Longrightarrow>
     decryptMetadata L enc ivHex k2 = decryptMetadata L enc ivHex k1"
  by (simp add: decryptMetadata_def)

lemma encrypt_by_digest:
  "sha256 L (utf8 k1) = sha256 L (utf8 k2) \<Longrightarrow>
     encryptMetadata L random data k2 = encryptMetadata L random data k1"
  by (simp add: encryptMetadata_def)

section \<open>The blob store\<close>

lemma local_filename_prefix: "prefix ''local-'' (local_filename a)"
  by (simp add: local_filename_def)

lemma local_filename_nonempty: "local_filename a \<noteq> []"
  by (simp add: local_filename_def)

lemma local_filename_moment: "local_filename moment = ''local-1700000000123-k3x9.json''"
proof -
  have "decimal 1700000000123 = ''1700000000123''"
    by (simp add: decimal.simps char_of_def bit_0 bit_Suc)
  then show ?thesis by (simp add: local_filename_def moment_def)
qed

text \<open>
  An upload ends in one of three ways: the node took the blob, the local directory took
  it, or the local directory refused it.
\<close>

lemma upload_cases:
  "uploadToIPFS L a data w =
     (if USE_IPFS w \<and> ipfsClient w \<and> ipfs_online w
      then (w\<lparr>ipfs_blocks := (ipfs_blocks w)(ipfs_cid L (JSON_stringify_indent L data)
                 \<mapsto> JSON_stringify_indent L data)\<rparr>,
            Inr (ipfs_cid L (JSON_stringify_indent L data)))
      else if fs_writable w
      then (w\<lparr>fs_files := (fs_files w)(local_filename a \<mapsto> JSON_stringify_indent L data)\<rparr>,
            Inr (local_filename a))
      else (w, Inl (JsError ''Failed to save data to local storage'')))"
  by (simp add: uploadToIPFS_def ipfs_add_def saveToLocalStorage_def Let_def)

lemma upload_then_retrieve:
  assumes up: "snd (uploadToIPFS L a blob w) = Inr cid" and rd: "blob_readable L blob"
  shows "retrieveFromIPFS L cid (fst (uploadToIPFS L a blob w)) = Inr blob"
proof -
  have parse: "JSON_parse L (JSON_stringify_indent L blob) = Inr blob"
    and nolocal: "\<not> prefix ''local-'' (ipfs_cid L (JSON_stringify_indent L blob))"
    using rd by (simp_all add: blob_readable_def)
  consider (remote) "USE_IPFS w \<and> ipfsClient w \<and> ipfs_online w"
    | (local) "\<not> (USE_IPFS w \<and> ipfsClient w \<and> ipfs_online w)" "fs_writable w"
    | (none) "\<not> (USE_IPFS w \<and> ipfsClient w \<and> ipfs_online w)" "\<not> fs_writable w"
    by blast
  then show ?thesis
  proof cases
    case remote
    then have "cid = ipfs_cid L (JSON_stringify_indent L blob)"
      using up by (auto simp: upload_cases split: if_splits)
    then show ?thesis using remote parse nolocal
      by (simp add: upload_cases retrieveFromIPFS_def ipfs_cat_def)
  next
    case local
    then have c: "cid = local_filename a"
      using up by (auto simp: upload_cases split: if_splits)
    show ?thesis unfolding c using local parse local_filename_prefix [of a]
      by (auto simp: upload_cases retrieveFromIPFS_def retrieveFromLocalStorage_def)
  next
    case none
    then show ?thesis using up by (auto simp: upload_cases split: if_splits)
  qed
qed

lemma retrieve_frame:
  "retrieveFromIPFS L cid (w\<lparr>chain := c\<rparr>) = retrieveFromIPFS L cid w"
  "retrieveFromIPFS L cid (w\<lparr>db_rows := rows\<rparr>) = retrieveFromIPFS L cid w"
  by (simp_all add: retrieveFromIPFS_def ipfs_cat_def retrieveFromLocalStorage_def)

lemma upload_keeps:
  "web3Ready (fst (uploadToIPFS L a data w)) = web3Ready w"
  "contract (fst (uploadToIPFS L a data w)) = contract w"
  "signer (fst (uploadToIPFS L a data w)) = signer w"
  "rpc_failure (fst (uploadToIPFS L a data w)) = rpc_failure w"
  "chain (fst (uploadToIPFS L a data w)) = chain w"
  "db_failure (fst (uploadToIPFS L a data w)) = db_failure w"
  "db_rows (fst (uploadToIPFS L a data w)) = db_rows w"
  "AES_ENCRYPTION_KEY (fst (uploadToIPFS L a data w)) = AES_ENCRYPTION_KEY w"
  by (simp_all add: upload_cases)

text \<open>
  Claim C8 (fallback to the local store). When the remote backend is selected
  (\<open>USE_IPFS\<close> set and a client created) and its \<open>add\<close> call fails, \<open>uploadToIPFS\<close> is, in
  that same call, exactly one \<open>saveToLocalStorage\<close>: the error of the remote call is not
  what the caller gets, and the blobs on the node are as before. Where the local
  directory takes the write, the result is the generated local name, under which the blob
  is then stored; where the local write fails too, the call throws the local store's own
  error, "Failed to save data to local storage", and nothing is stored.
\<close>

theorem upload_falls_back_to_local:
  assumes "USE_IPFS w" and "ipfsClient w"
    and "snd (ipfs_add L (JSON_stringify_indent L data) w) = Inl e"
  shows "uploadToIPFS L a data w = saveToLocalStorage L a data w
       \<and> snd (uploadToIPFS L a data w) \<noteq> Inl e
       \<and> ipfs_blocks (fst (uploadToIPFS L a data w)) = ipfs_blocks w
       \<and> (fs_writable w \<longrightarrow>
            snd (uploadToIPFS L a data w)
              = Inr (local_filename a)
          \<and> fs_files (fst (uploadToIPFS L a data w))
              = (fs_files w)(local_filename a
                   \<mapsto> JSON_stringify_indent L data))
       \<and> (\<not> fs_writable w \<longrightarrow>
            uploadToIPFS L a data w = (w, Inl (JsError ''Failed to save data to local storage'')))"
proof -
  have off: "\<not> ipfs_online w" and e: "e = JsError ''request to the IPFS node failed''"
    using assms(3) by (auto simp: ipfs_add_def split: if_splits)
  have u: "uploadToIPFS L a data w = saveToLocalStorage L a data w"
    using assms(1,2) off by (simp add: uploadToIPFS_def ipfs_add_def)
  show ?thesis unfolding u e
    by (simp add: saveToLocalStorage_def Let_def)
qed

theorem upload_falls_back_to_local_witness:
  "USE_IPFS (office\<lparr>USE_IPFS := True, ipfsClient := True\<rparr>)
   \<and> ipfsClient (office\<lparr>USE_IPFS := True, ipfsClient := True\<rparr>)
   \<and> snd (ipfs_add plain (JSON_stringify_indent plain JNull)
             (office\<lparr>USE_IPFS := True, ipfsClient := True\<rparr>))
        = Inl (JsError ''request to the IPFS node failed'')
   \<and> fs_writable (office\<lparr>USE_IPFS := True, ipfsClient := True\<rparr>)
   \<and> uploadToIPFS plain moment JNull (office\<lparr>USE_IPFS := True, ipfsClient := True\<rparr>)
        = saveToLocalStorage plain moment JNull (office\<lparr>USE_IPFS := True, ipfsClient := True\<rparr>)
   \<and> snd (uploadToIPFS plain moment JNull (office\<lparr>USE_IPFS := True, ipfsClient := True\<rparr>))
        = Inr (''local-1700000000123-k3x9.json'')
   \<and> fs_files (fst (uploadToIPFS plain moment JNull
                      (office\<lparr>USE_IPFS := True, ipfsClient := True\<rparr>)))
        = (fs_files (office\<lparr>USE_IPFS := True, ipfsClient := True\<rparr>))
            (''local-1700000000123-k3x9.json'' \<mapsto> JSON_stringify_indent plain JNull)
   \<and> \<not> fs_writable (office\<lparr>USE_IPFS := True, ipfsClient := True, fs_writable := False\<rparr>)
   \<and> uploadToIPFS plain moment JNull
        (office\<lparr>USE_IPFS := True, ipfsClient := True, fs_writable := False\<rparr>)
        = (office\<lparr>USE_IPFS := True, ipfsClient := True, fs_writable := False\<rparr>,
           Inl (JsError ''Failed to save data to local storage''))"
proof -
  let ?w = "office\<lparr>USE_IPFS := True, ipfsClient := True\<rparr>"
  let ?v = "office\<lparr>USE_IPFS := True, ipfsClient := True, fs_writable := False\<rparr>"
  have a: "USE_IPFS ?w" "ipfsClient ?w" and b: "USE_IPFS ?v" "ipfsClient ?v"
    by simp_all
  have c: "snd (ipfs_add plain (JSON_stringify_indent plain JNull) ?w)
             = Inl (JsError ''request to the IPFS node failed'')"
    and d: "snd (ipfs_add plain (JSON_stringify_indent plain JNull) ?v)
             = Inl (JsError ''request to the IPFS node failed'')"
    by (simp_all add: ipfs_add_def office_def)
  have e: "fs_writable ?w" "\<not> fs_writable ?v"
    by (simp_all add: office_def)
  note t1 = upload_falls_back_to_local [OF a c, of moment]
  note t2 = upload_falls_back_to_local [OF b d, of moment]
  from t1 e(1) have A:
    "uploadToIPFS plain moment JNull ?w = saveToLocalStorage plain moment JNull ?w
     \<and> snd (uploadToIPFS plain moment JNull ?w) = Inr (local_filename moment)
     \<and> fs_files (fst (uploadToIPFS plain moment JNull ?w))
          = (fs_files ?w)(local_filename moment \<mapsto> JSON_stringify_indent plain JNull)"
    by blast
  from t2 e(2) have B:
    "uploadToIPFS plain moment JNull ?v
       = (?v, Inl (JsError ''Failed to save data to local storage''))"
    by blast
  note A' = A [unfolded local_filename_moment]
  from a c e A' B show ?thesis by blast
qed

text \<open>
  The claim as it was written, that the call returns the local reference for every blob,
  fails where the local directory cannot be written: the remote backend is selected, its
  \<open>add\<close> fails, and the call returns no reference but throws.
\<close>

theorem upload_fallback_counterexample:
  "USE_IPFS (office\<lparr>USE_IPFS := True, ipfsClient := True, fs_writable := False\<rparr>)
   \<and> ipfsClient (office\<lparr>USE_IPFS := True, ipfsClient := True, fs_writable := False\<rparr>)
   \<and> snd (ipfs_add plain (JSON_stringify_indent plain JNull)
             (office\<lparr>USE_IPFS := True, ipfsClient := True, fs_writable := False\<rparr>))
        = Inl (JsError ''request to the IPFS node failed'')
   \<and> uploadToIPFS plain moment JNull
        (office\<lparr>USE_IPFS := True, ipfsClient := True, fs_writable := False\<rparr>)
        = (office\<lparr>USE_IPFS := True, ipfsClient := True, fs_writable := False\<rparr>,
           Inl (JsError ''Failed to save data to local storage''))"
  by (simp add: uploadToIPFS_def ipfs_add_def saveToLocalStorage_def office_def)

section \<open>The upload middleware\<close>

text \<open>
  The middleware lets through a form without a file part, and a form whose only file
  part is in the field \<open>certificate\<close> and is below the limit of 10 MB (at the limit, where
  the parser allows it); it refuses every other form. What it lets through keeps its text
  fields.
\<close>

lemma single_file_got:
  "single_file strict name limit (Some c) parts
     = (if parts = [] then Inr (Some c) else Inl (JsError ''Unexpected field''))"
  by (cases parts) auto

lemma single_file_cases:
  "single_file strict name limit None parts =
     (case parts of
        [] \<Rightarrow> Inr None
      | (field, content) # rest \<Rightarrow>
          if field \<noteq> name then Inl (JsError ''Unexpected field'')
          else if limit < length content \<or> (strict \<and> length content = limit)
          then Inl (JsError ''File too large'')
          else if rest = [] then Inr (Some content)
          else Inl (JsError ''Unexpected field''))"
  by (cases parts) (auto simp: single_file_got)

lemma upload_none:
  assumes "file_parts sub = []"
  shows "upload_single L sub
     = Inr \<lparr>studentName = studentName sub, courseName = courseName sub,
            institution = institution sub, issueDate = issueDate sub, grade = grade sub,
            additionalInfo = additionalInfo sub, req_file = None\<rparr>"
  using assms by (simp add: upload_single_def)

lemma upload_one:
  assumes "file_parts sub = [(''certificate'', content)]" and "length content < 10485760"
  shows "upload_single L sub
     = Inr \<lparr>studentName = studentName sub, courseName = courseName sub,
            institution = institution sub, issueDate = issueDate sub, grade = grade sub,
            additionalInfo = additionalInfo sub, req_file = Some content\<rparr>"
  using assms by (simp add: upload_single_def)

lemma upload_too_large:
  assumes "file_parts sub = (''certificate'', content) # rest" and "10485760 < length content"
  shows "upload_single L sub = Inl (JsError ''File too large'')"
  using assms by (simp add: upload_single_def)

lemma upload_at_limit:
  assumes "file_parts sub = [(''certificate'', content)]" and "length content = 10485760"
  shows "upload_single L sub =
     (if fileSize_exclusive L then Inl (JsError ''File too large'')
      else Inr \<lparr>studentName = studentName sub, courseName = courseName sub,
                institution = institution sub, issueDate = issueDate sub, grade = grade sub,
                additionalInfo = additionalInfo sub, req_file = Some content\<rparr>)"
  using assms by (simp add: upload_single_def)

lemma upload_unexpected:
  assumes "file_parts sub = (field, content) # rest" and "field \<noteq> ''certificate''"
  shows "upload_single L sub = Inl (JsError ''Unexpected field'')"
  using assms by (simp add: upload_single_def)

lemma upload_second:
  assumes "file_parts sub = (''certificate'', content) # part # rest"
    and "length content < 10485760"
  shows "upload_single L sub = Inl (JsError ''Unexpected field'')"
  using assms by (simp add: upload_single_def single_file_got)

lemma upload_accepted:
  assumes "upload_single L sub = Inr req"
  shows "studentName req = studentName sub \<and> courseName req = courseName sub
       \<and> institution req = institution sub \<and> issueDate req = issueDate sub
       \<and> grade req = grade sub \<and> additionalInfo req = additionalInfo sub
       \<and> (file_parts sub = [] \<and> req_file req = None
          \<or> (\<exists>content. file_parts sub = [(''certificate'', content)]
                \<and> length content \<le> 10485760 \<and> req_file req = Some content))"
proof (cases "single_file (fileSize_exclusive L) ''certificate'' (10 * 1024 * 1024) None
               (file_parts sub)")
  case (Inl e)
  with assms show ?thesis by (simp add: upload_single_def)
next
  case (Inr f)
  then have "file_parts sub = [] \<and> f = None
          \<or> (\<exists>content. file_parts sub = [(''certificate'', content)]
                \<and> length content \<le> 10485760 \<and> f = Some content)"
    by (auto simp: single_file_cases split: list.splits if_splits)
  moreover from assms Inr have "req = \<lparr>studentName = studentName sub,
            courseName = courseName sub, institution = institution sub,
            issueDate = issueDate sub, grade = grade sub,
            additionalInfo = additionalInfo sub, req_file = f\<rparr>"
    by (simp add: upload_single_def)
  ultimately show ?thesis by auto
qed

lemma upload_refused_status: "status (error_middleware L w e) = 500"
  by (simp add: error_middleware_def)

lemma metadata_of_accepted:
  assumes "upload_single L sub = Inr req"
  shows "metadata_of req =
     JObject (List.map_filter (\<lambda>(k, v). map_option (\<lambda>s. (k, JString s)) v)
       [(''studentName'', studentName sub), (''courseName'', courseName sub),
        (''institution'', institution sub), (''issueDate'', issueDate sub),
        (''grade'', grade sub), (''additionalInfo'', additionalInfo sub)])"
  using upload_accepted [OF assms] by (simp add: metadata_of_def)

lemma submitted_accepted: "upload_single L submitted = Inr application"
  by (simp add: upload_single_def submitted_def application_def)

lemma submitted_accepted_without:
  "upload_single L (submitted\<lparr>studentName := v\<rparr>) = Inr (application\<lparr>studentName := v\<rparr>)"
  "upload_single L (submitted\<lparr>file_parts := []\<rparr>) = Inr (application\<lparr>req_file := None\<rparr>)"
  by (simp_all add: upload_single_def submitted_def application_def)

lemma metadata_of_application:
  "metadata_of application
     = JObject [(''studentName'', JString ''Ada''), (''courseName'', JString ''Logic''),
                (''institution'', JString ''Kings'')]"
  by (simp add: metadata_of_def application_def List.map_filter_def)

section \<open>The routes\<close>

lemma case_result_Inl:
  "snd p = Inl e \<Longrightarrow> (case p of (w, Inl x) \<Rightarrow> f w x | (w, Inr y) \<Rightarrow> g w y) = f (fst p) e"
  by (cases p) simp

lemma case_result_Inr:
  "snd p = Inr v \<Longrightarrow> (case p of (w, Inl x) \<Rightarrow> f w x | (w, Inr y) \<Rightarrow> g w y) = g (fst p) v"
  by (cases p) simp

lemma web3_issue_cases:
  "web3_issueCertificate L a (hashDocumentForBlockchain L buffer) cid w =
     (case signer w of
        None \<Rightarrow> (w, Inl (JsError ''Contract not initialized or no signer available''))
      | Some sender \<Rightarrow>
          if \<not> contract w
          then (w, Inl (JsError ''Contract not initialized or no signer available''))
          else (case rpc_failure w of
                  Some m \<Rightarrow> (w, Inl (JsError (''Failed to issue certificate: '' @ m)))
                | None \<Rightarrow>
                    (case issueCertificate \<lparr>msg_sender = sender, block_timestamp = tx_timestamp a\<rparr>
                            (sha256 L buffer) cid (chain w) of
                       Inl r \<Rightarrow> (w, Inl (JsError (''Failed to issue certificate: ''
                                                      @ ethers_message L r)))
                     | Inr c \<Rightarrow>
                         (w\<lparr>chain := c\<rparr>,
                          Inr \<lparr>transactionHash = tx_hash a, blockNumber = tx_blockNumber a,
                               gasUsed = decimal (tx_gasUsed a)\<rparr>))))"
  by (simp add: web3_issueCertificate_def contract_issueCertificate_def bytes32_of_hashDocument
      commit_def split: option.splits sum.splits)

lemma web3_verify_cases:
  "web3_verifyCertificate L (hashDocumentForBlockchain L buffer) w =
     (if \<not> contract w then Inl (JsError ''Contract not initialized'')
      else (case rpc_failure w of
              Some m \<Rightarrow> Inl (JsError (''Failed to verify certificate: '' @ m))
            | None \<Rightarrow>
                Inr \<lparr>exists' = exists (certificates (chain w) (sha256 L buffer)),
                     ipfsCID' = ipfsCID (certificates (chain w) (sha256 L buffer)),
                     issuer' = ethers_address L (issuer (certificates (chain w) (sha256 L buffer))),
                     timestamp' = unat (timestamp (certificates (chain w) (sha256 L buffer)))\<rparr>))"
  by (simp add: web3_verifyCertificate_def contract_verifyCertificate_def
      bytes32_of_hashDocument verifyCertificate_def Let_def split: option.splits)

text \<open>The ledger call returns a receipt only for a signer the contract accepts.\<close>

lemma web3_issue_ok:
  assumes ok: "snd (web3_issueCertificate L a (hashDocumentForBlockchain L buffer) cid w) = Inr r"
  shows "\<exists>sender c. contract w \<and> signer w = Some sender \<and> rpc_failure w = None
           \<and> issueCertificate \<lparr>msg_sender = sender, block_timestamp = tx_timestamp a\<rparr>
                 (sha256 L buffer) cid (chain w) = Inr c
           \<and> fst (web3_issueCertificate L a (hashDocumentForBlockchain L buffer) cid w)
                 = w\<lparr>chain := c\<rparr>"
proof (cases "signer w")
  case None
  with ok show ?thesis by (simp add: web3_issue_cases)
next
  case (Some sender)
  show ?thesis
  proof (cases "contract w")
    case False
    with ok Some show ?thesis by (simp add: web3_issue_cases)
  next
    case True
    show ?thesis
    proof (cases "rpc_failure w")
      case (Some m)
      with ok \<open>signer w = Some sender\<close> True show ?thesis by (simp add: web3_issue_cases)
    next
      case None
      show ?thesis
      proof (cases "issueCertificate \<lparr>msg_sender = sender, block_timestamp = tx_timestamp a\<rparr>
                 (sha256 L buffer) cid (chain w)")
        case (Inl rv)
        with ok \<open>signer w = Some sender\<close> True None show ?thesis
          by (simp add: web3_issue_cases)
      next
        case (Inr c)
        with \<open>signer w = Some sender\<close> True None show ?thesis
          by (simp add: web3_issue_cases)
      qed
    qed
  qed
qed

lemma insert_cases:
  "insertTransaction row w =
     (if db_failure w = None
         \<and> List.find (column_is_null row) not_null_columns = None
         \<and> txHash_of row \<notin> set (map txHash_of (db_rows w))
      then (w\<lparr>db_rows := db_rows w @ [row]\<rparr>, Inr (Suc (length (db_rows w))))
      else (w, Inl (JsError
             (case db_failure w of
                Some m \<Rightarrow> m
              | None \<Rightarrow>
                  (case List.find (column_is_null row) not_null_columns of
                     Some k \<Rightarrow>
                       ''SQLITE_CONSTRAINT: NOT NULL constraint failed: transactions.'' @ k
                   | None \<Rightarrow>
                       ''SQLITE_CONSTRAINT: UNIQUE constraint failed: transactions.txHash'')))))"
proof (cases "db_failure w")
  case (Some m)
  then show ?thesis unfolding insertTransaction_def by (simp only: option.case) simp
next
  case None
  show ?thesis
  proof (cases "List.find (column_is_null row) not_null_columns")
    case n: None
    show ?thesis unfolding insertTransaction_def None n by (simp only: option.case) simp
  next
    case (Some k)
    show ?thesis unfolding insertTransaction_def None Some by (simp only: option.case) simp
  qed
qed

lemma insert_ok:
  assumes "snd (insertTransaction row w) = Inr n"
  shows "fst (insertTransaction row w) = w\<lparr>db_rows := db_rows w @ [row]\<rparr>"
  using assms by (simp add: insert_cases split: if_splits)

lemma status_failed: "status (failed what e) = 500"
  by (simp add: failed_def)

text \<open>The answer is 200 only where the audit row went in, and then only the table grew.\<close>

lemma issue_respond_ok:
  assumes "status (snd (issue_respond L a hash cid r w2)) = 200"
  shows "\<exists>rows. fst (issue_respond L a hash cid r w2) = w2\<lparr>db_rows := rows\<rparr>"
proof -
  let ?row = "JObject [(''txHash'', JString (transactionHash r)),
                          (''docHash'', JString hash),
                          (''ipfsCID'', JString cid),
                          (''issuer'', getSignerAddress L w2),
                          (''timestamp'', JNumber (int (Date_now_insert a div 1000))),
                          (''status'', JString ''confirmed''),
                          (''blockNumber'', JNumber (int (blockNumber r))),
                          (''gasUsed'', JString (gasUsed r))]"
  show ?thesis
  proof (cases "snd (insertTransaction ?row w2)")
    case (Inl e)
    have "issue_respond L a hash cid r w2
            = (fst (insertTransaction ?row w2), failed ''Failed to issue certificate'' e)"
      unfolding issue_respond_def Let_def by (rule case_result_Inl [OF Inl])
    with assms show ?thesis by (simp add: status_failed)
  next
    case (Inr n)
    have "fst (issue_respond L a hash cid r w2) = fst (insertTransaction ?row w2)"
      unfolding issue_respond_def Let_def case_result_Inr [OF Inr] by simp
    then show ?thesis unfolding insert_ok [OF Inr] by (rule exI)
  qed
qed

text \<open>
  The pipeline answers 200 only where the store took the blob, the ledger took the
  record and the table took the row; the state then differs from the state after the
  upload in the chain and the table only.
\<close>

lemma issue_pipeline_ok:
  assumes ok: "status (snd (issue_pipeline L a buffer md w)) = 200"
  shows "\<exists>cid sender c rows.
           contract w \<and> signer w = Some sender \<and> rpc_failure w = None
         \<and> snd (uploadToIPFS L a (json_of_encrypted (encryptMetadata L (randomBytes16 a)
                  md (encryptionKey_of w))) w) = Inr cid
         \<and> issueCertificate \<lparr>msg_sender = sender, block_timestamp = tx_timestamp a\<rparr>
               (sha256 L buffer) cid (chain w) = Inr c
         \<and> fst (issue_pipeline L a buffer md w)
             = (fst (uploadToIPFS L a (json_of_encrypted (encryptMetadata L (randomBytes16 a)
                  md (encryptionKey_of w))) w))\<lparr>chain := c, db_rows := rows\<rparr>"
proof -
  let ?hash = "hashDocumentForBlockchain L buffer"
  let ?up = "uploadToIPFS L a (json_of_encrypted (encryptMetadata L (randomBytes16 a)
                  md (encryptionKey_of w))) w"
  show ?thesis
  proof (cases "snd ?up")
    case (Inl e)
    have "issue_pipeline L a buffer md w = (fst ?up, failed ''Failed to issue certificate'' e)"
      unfolding issue_pipeline_def Let_def by (rule case_result_Inl [OF Inl])
    with ok show ?thesis by (simp add: status_failed)
  next
    case (Inr cid)
    let ?iss = "web3_issueCertificate L a ?hash cid (fst ?up)"
    have p1: "issue_pipeline L a buffer md w =
                (case ?iss of
                   (w2, Inl e) \<Rightarrow> (w2, failed ''Failed to issue certificate'' e)
                 | (w2, Inr txReceipt) \<Rightarrow> issue_respond L a ?hash cid txReceipt w2)"
      unfolding issue_pipeline_def Let_def by (rule case_result_Inr [OF Inr])
    show ?thesis
    proof (cases "snd ?iss")
      case (Inl e)
      have "issue_pipeline L a buffer md w = (fst ?iss, failed ''Failed to issue certificate'' e)"
        unfolding p1 by (rule case_result_Inl [OF Inl])
      with ok show ?thesis by (simp add: status_failed)
    next
      case r: (Inr r)
      have p2: "issue_pipeline L a buffer md w = issue_respond L a ?hash cid r (fst ?iss)"
        unfolding p1 by (rule case_result_Inr [OF r])
      from web3_issue_ok [OF r] obtain sender c where
        s: "contract (fst ?up)" "signer (fst ?up) = Some sender" "rpc_failure (fst ?up) = None"
          "issueCertificate \<lparr>msg_sender = sender, block_timestamp = tx_timestamp a\<rparr>
                 (sha256 L buffer) cid (chain (fst ?up)) = Inr c"
          "fst ?iss = (fst ?up)\<lparr>chain := c\<rparr>"
        by blast
      from ok obtain rows where
        "fst (issue_pipeline L a buffer md w) = (fst ?iss)\<lparr>db_rows := rows\<rparr>"
        unfolding p2 using issue_respond_ok by blast
      then have "fst (issue_pipeline L a buffer md w) = (fst ?up)\<lparr>chain := c, db_rows := rows\<rparr>"
        using s(5) by simp
      then show ?thesis using s(1-4) Inr by (simp add: upload_keeps) blast
    qed
  qed
qed

lemma web3_issue_keeps:
  "fs_files (fst (web3_issueCertificate L a h cid w)) = fs_files w"
  "ipfs_blocks (fst (web3_issueCertificate L a h cid w)) = ipfs_blocks w"
  by (simp_all add: web3_issueCertificate_def contract_issueCertificate_def
      split: option.splits sum.splits prod.splits)

lemma insert_keeps:
  "fs_files (fst (insertTransaction row w)) = fs_files w"
  "ipfs_blocks (fst (insertTransaction row w)) = ipfs_blocks w"
  by (simp_all add: insert_cases)

lemma fst_case_result:
  "fst (case p of (w, Inl x) \<Rightarrow> (w, f x) | (w, Inr y) \<Rightarrow> (w, g y)) = fst p"
  by (cases p; cases "snd p") simp_all

lemma issue_respond_fst:
  "\<exists>row. fst (issue_respond L a hash cid r w2) = fst (insertTransaction row w2)"
  unfolding issue_respond_def Let_def fst_case_result by (rule exI) (rule refl)

lemma issue_respond_keeps:
  "fs_files (fst (issue_respond L a hash cid r w2)) = fs_files w2"
  "ipfs_blocks (fst (issue_respond L a hash cid r w2)) = ipfs_blocks w2"
  using issue_respond_fst [of L a hash cid r w2] by (auto simp: insert_keeps)

lemma issue_respond_status:
  "status (snd (issue_respond L a hash cid r w2)) = 200
   \<or> status (snd (issue_respond L a hash cid r w2)) = 500"
proof -
  have g: "status (snd (case p of (w3, Inl e) \<Rightarrow> (w3, failed m e)
                               | (w3, Inr n) \<Rightarrow> (w3, Response 200 b))) = 200
         \<or> status (snd (case p of (w3, Inl e) \<Rightarrow> (w3, failed m e)
                               | (w3, Inr n) \<Rightarrow> (w3, Response 200 b))) = 500"
    for p :: "world \<times> (js_error + nat)" and m b
    by (cases p; cases "snd p") (simp_all add: status_failed)
  show ?thesis unfolding issue_respond_def Let_def by (rule g)
qed

text \<open>
  Past the validation the answer is 200 or 500, and the blob store is left as the upload
  of the encrypted metadata left it: the later steps write to the chain and the table.
\<close>

lemma issue_pipeline_runs:
  "(status (snd (issue_pipeline L a buffer md w)) = 200
      \<or> status (snd (issue_pipeline L a buffer md w)) = 500)
   \<and> fs_files (fst (issue_pipeline L a buffer md w))
       = fs_files (fst (uploadToIPFS L a (json_of_encrypted (encryptMetadata L (randomBytes16 a)
                  md (encryptionKey_of w))) w))
   \<and> ipfs_blocks (fst (issue_pipeline L a buffer md w))
       = ipfs_blocks (fst (uploadToIPFS L a (json_of_encrypted (encryptMetadata L
                  (randomBytes16 a) md (encryptionKey_of w))) w))"
proof -
  let ?hash = "hashDocumentForBlockchain L buffer"
  let ?up = "uploadToIPFS L a (json_of_encrypted (encryptMetadata L (randomBytes16 a)
                  md (encryptionKey_of w))) w"
  show ?thesis
  proof (cases "snd ?up")
    case (Inl e)
    have "issue_pipeline L a buffer md w = (fst ?up, failed ''Failed to issue certificate'' e)"
      unfolding issue_pipeline_def Let_def by (rule case_result_Inl [OF Inl])
    then show ?thesis by (simp add: status_failed)
  next
    case (Inr cid)
    let ?iss = "web3_issueCertificate L a ?hash cid (fst ?up)"
    have p1: "issue_pipeline L a buffer md w =
                (case ?iss of
                   (w2, Inl e) \<Rightarrow> (w2, failed ''Failed to issue certificate'' e)
                 | (w2, Inr txReceipt) \<Rightarrow> issue_respond L a ?hash cid txReceipt w2)"
      unfolding issue_pipeline_def Let_def by (rule case_result_Inr [OF Inr])
    show ?thesis
    proof (cases "snd ?iss")
      case (Inl e)
      have "issue_pipeline L a buffer md w = (fst ?iss, failed ''Failed to issue certificate'' e)"
        unfolding p1 by (rule case_result_Inl [OF Inl])
      then show ?thesis by (simp add: status_failed web3_issue_keeps)
    next
      case r: (Inr r)
      have p2: "issue_pipeline L a buffer md w = issue_respond L a ?hash cid r (fst ?iss)"
        unfolding p1 by (rule case_result_Inr [OF r])
      show ?thesis unfolding p2
        using issue_respond_status [of L a ?hash cid r "fst ?iss"]
        by (simp add: issue_respond_keeps web3_issue_keeps)
    qed
  qed
qed

text \<open>
  Claim C9 (validation precedes every effect). Of the requests whose upload the
  middleware lets through (no file, or one file within the 10 MB limit in the field
  \<open>certificate\<close>), one in which \<open>studentName\<close>, \<open>courseName\<close> or \<open>institution\<close> is missing or
  empty is refused before anything is hashed, encrypted, stored or sent to the ledger,
  and the state is untouched. The refusal is the first guard that applies, in the
  handler's order: 503 "Web3 not initialized" when the ledger client is not ready, else
  400 "No certificate file provided" when no file was uploaded, else the validation error
  400 "Missing required metadata fields". With the client ready, a file uploaded and the
  three fields non-empty, validation passes and the pipeline runs: the answer is 200 or
  500 and the blob store holds what the upload of the encrypted metadata put there. A
  request whose upload the middleware refuses never reaches the handler: the error
  middleware answers 500 and the state is untouched.
\<close>

theorem validation_precedes_effects:
  "(upload_single L sub = Inl e \<longrightarrow> issue_route L a sub w = (w, error_middleware L w e))
   \<and> (upload_single L sub = Inr req
        \<and> (falsy (studentName sub) \<or> falsy (courseName sub) \<or> falsy (institution sub)) \<longrightarrow>
      issue_route L a sub w =
        (w, if \<not> web3Ready w
            then Response 503 (JObject [(''error'', JString ''Web3 not initialized'')])
            else if req_file req = None
            then Response 400 (JObject [(''error'', JString ''No certificate file provided'')])
            else Response 400 (JObject [(''error'', JString ''Missing required metadata fields'')])))
   \<and> (upload_single L sub = Inr req
        \<and> \<not> falsy (studentName sub) \<and> \<not> falsy (courseName sub) \<and> \<not> falsy (institution sub)
        \<and> web3Ready w \<and> req_file req = Some buffer \<longrightarrow>
        issue_route L a sub w = issue_pipeline L a buffer (metadata_of req) w
      \<and> (status (snd (issue_route L a sub w)) = 200 \<or> status (snd (issue_route L a sub w)) = 500)
      \<and> fs_files (fst (issue_route L a sub w))
          = fs_files (fst (uploadToIPFS L a (json_of_encrypted (encryptMetadata L
                (randomBytes16 a) (metadata_of req) (encryptionKey_of w))) w))
      \<and> ipfs_blocks (fst (issue_route L a sub w))
          = ipfs_blocks (fst (uploadToIPFS L a (json_of_encrypted (encryptMetadata L
                (randomBytes16 a) (metadata_of req) (encryptionKey_of w))) w)))"
proof (intro conjI impI)
  assume "upload_single L sub = Inl e"
  then show "issue_route L a sub w = (w, error_middleware L w e)"
    by (simp add: issue_route_def)
next
  assume h: "upload_single L sub = Inr req
        \<and> (falsy (studentName sub) \<or> falsy (courseName sub) \<or> falsy (institution sub))"
  then have u: "upload_single L sub = Inr req" by simp
  have r: "issue_route L a sub w = issue_handler L a req w"
    by (simp add: issue_route_def u)
  from h upload_accepted [OF u]
  have "falsy (studentName req) \<or> falsy (courseName req) \<or> falsy (institution req)"
    by simp
  then show "issue_route L a sub w =
        (w, if \<not> web3Ready w
            then Response 503 (JObject [(''error'', JString ''Web3 not initialized'')])
            else if req_file req = None
            then Response 400 (JObject [(''error'', JString ''No certificate file provided'')])
            else Response 400 (JObject [(''error'', JString ''Missing required metadata fields'')]))"
    unfolding r by (cases "req_file req") (simp_all add: issue_handler_def Let_def)
next
  assume h: "upload_single L sub = Inr req
        \<and> \<not> falsy (studentName sub) \<and> \<not> falsy (courseName sub) \<and> \<not> falsy (institution sub)
        \<and> web3Ready w \<and> req_file req = Some buffer"
  then have u: "upload_single L sub = Inr req" by simp
  from h upload_accepted [OF u]
  have g: "\<not> falsy (studentName req)" "\<not> falsy (courseName req)" "\<not> falsy (institution req)"
    "web3Ready w" "req_file req = Some buffer"
    by simp_all
  have e: "issue_route L a sub w = issue_pipeline L a buffer (metadata_of req) w"
    using g by (simp add: issue_route_def u issue_handler_def Let_def)
  note r = issue_pipeline_runs [of L a buffer "metadata_of req" w]
  show "issue_route L a sub w = issue_pipeline L a buffer (metadata_of req) w"
    by (rule e)
  show "status (snd (issue_route L a sub w)) = 200 \<or> status (snd (issue_route L a sub w)) = 500"
    unfolding e using r by blast
  show "fs_files (fst (issue_route L a sub w))
          = fs_files (fst (uploadToIPFS L a (json_of_encrypted (encryptMetadata L
                (randomBytes16 a) (metadata_of req) (encryptionKey_of w))) w))"
    unfolding e using r by blast
  show "ipfs_blocks (fst (issue_route L a sub w))
          = ipfs_blocks (fst (uploadToIPFS L a (json_of_encrypted (encryptMetadata L
                (randomBytes16 a) (metadata_of req) (encryptionKey_of w))) w))"
    unfolding e using r by blast
qed

text \<open>
  The pipeline does answer 200: with a reference from the store, a signer the contract
  trusts, a fingerprint not yet on the ledger and a table that takes the row.
\<close>

lemma web3_issue_succeeds:
  assumes "contract w" and "signer w = Some sender" and "rpc_failure w = None"
    and "authorizedIssuers (chain w) sender" and "sha256 L buffer \<noteq> 0" and "cid \<noteq> []"
    and "\<not> exists (certificates (chain w) (sha256 L buffer))"
  shows "\<exists>c. web3_issueCertificate L a (hashDocumentForBlockchain L buffer) cid w
           = (w\<lparr>chain := c\<rparr>,
              Inr \<lparr>transactionHash = tx_hash a, blockNumber = tx_blockNumber a,
                   gasUsed = decimal (tx_gasUsed a)\<rparr>)"
  using assms by (simp add: web3_issue_cases reg_defs) (rule exI, rule refl)

lemma issue_respond_succeeds:
  assumes "db_failure w2 = None"
    and "Some (JString (transactionHash r)) \<notin> set (map txHash_of (db_rows w2))"
    and "signer w2 = Some sender"
  shows "status (snd (issue_respond L a hash cid r w2)) = 200"
proof -
  let ?row = "JObject [(''txHash'', JString (transactionHash r)),
                          (''docHash'', JString hash),
                          (''ipfsCID'', JString cid),
                          (''issuer'', getSignerAddress L w2),
                          (''timestamp'', JNumber (int (Date_now_insert a div 1000))),
                          (''status'', JString ''confirmed''),
                          (''blockNumber'', JNumber (int (blockNumber r))),
                          (''gasUsed'', JString (gasUsed r))]"
  have t: "txHash_of ?row = Some (JString (transactionHash r))"
    by (simp add: txHash_of_def)
  have n: "List.find (column_is_null ?row) not_null_columns = None"
    using assms(3) by (simp add: not_null_columns_def column_is_null_def getSignerAddress_def)
  have "snd (insertTransaction ?row w2) = Inr (Suc (length (db_rows w2)))"
    unfolding insert_cases t n using assms(1,2) by simp
  then show ?thesis
    unfolding issue_respond_def Let_def by (simp only: case_result_Inr) simp
qed

lemma issue_pipeline_succeeds:
  assumes up: "snd (uploadToIPFS L a (json_of_encrypted (encryptMetadata L (randomBytes16 a)
                  md (encryptionKey_of w))) w) = Inr cid" and "cid \<noteq> []"
    and "contract w" and "signer w = Some sender" and "rpc_failure w = None"
    and "authorizedIssuers (chain w) sender" and "sha256 L buffer \<noteq> 0"
    and "\<not> exists (certificates (chain w) (sha256 L buffer))"
    and "db_failure w = None"
    and "Some (JString (tx_hash a)) \<notin> set (map txHash_of (db_rows w))"
  shows "status (snd (issue_pipeline L a buffer md w)) = 200"
proof -
  let ?hash = "hashDocumentForBlockchain L buffer"
  let ?up = "uploadToIPFS L a (json_of_encrypted (encryptMetadata L (randomBytes16 a)
                  md (encryptionKey_of w))) w"
  let ?r = "\<lparr>transactionHash = tx_hash a, blockNumber = tx_blockNumber a,
                   gasUsed = decimal (tx_gasUsed a)\<rparr>"
  have p1: "issue_pipeline L a buffer md w =
                (case web3_issueCertificate L a ?hash cid (fst ?up) of
                   (w2, Inl e) \<Rightarrow> (w2, failed ''Failed to issue certificate'' e)
                 | (w2, Inr txReceipt) \<Rightarrow> issue_respond L a ?hash cid txReceipt w2)"
    unfolding issue_pipeline_def Let_def by (rule case_result_Inr [OF up])
  obtain c where c: "web3_issueCertificate L a ?hash cid (fst ?up) = ((fst ?up)\<lparr>chain := c\<rparr>, Inr ?r)"
    using web3_issue_succeeds [of "fst ?up" sender L buffer cid a] assms(2-8)
    by (auto simp: upload_keeps)
  have p2: "issue_pipeline L a buffer md w = issue_respond L a ?hash cid ?r ((fst ?up)\<lparr>chain := c\<rparr>)"
    unfolding p1 c by simp
  show ?thesis unfolding p2
    by (rule issue_respond_succeeds [where sender = sender])
      (use assms(4,9,10) in \<open>simp_all add: upload_keeps\<close>)
qed

text \<open>The request of the concrete backend goes through, with either stand-in library.\<close>

lemma office_upload:
  "uploadToIPFS L a blob office
     = (office\<lparr>fs_files := (fs_files office)(local_filename a \<mapsto> JSON_stringify_indent L blob)\<rparr>,
        Inr (local_filename a))"
  by (simp add: upload_cases office_def)

lemma office_issue_ok:
  assumes "sha256 L buffer = 7"
  shows "status (snd (issue_pipeline L a buffer md office)) = 200"
proof (rule issue_pipeline_succeeds)
  show "snd (uploadToIPFS L a (json_of_encrypted (encryptMetadata L (randomBytes16 a)
                  md (encryptionKey_of office))) office) = Inr (local_filename a)"
    by (simp add: office_upload)
  show "local_filename a \<noteq> []" by (rule local_filename_nonempty)
  show "contract office" "signer office = Some 1" "rpc_failure office = None"
    "db_failure office = None"
    "Some (JString (tx_hash a)) \<notin> set (map txHash_of (db_rows office))"
    by (simp_all add: office_def)
  show "authorizedIssuers (chain office) 1" by (simp add: office_def genesis_def)
  show "sha256 L buffer \<noteq> 0" using assms by simp
  show "\<not> exists (certificates (chain office) (sha256 L buffer))"
    using assms by (simp add: office_def genesis_def zeroCertificate_def)
qed

theorem validation_precedes_effects_witness:
  "upload_single plain (submitted\<lparr>file_parts := [(''photo'', [1, 2, 3])]\<rparr>)
        = Inl (JsError ''Unexpected field'')
   \<and> issue_route plain moment (submitted\<lparr>file_parts := [(''photo'', [1, 2, 3])]\<rparr>) office
        = (office, Response 500 (JObject [(''error'', JString ''Unexpected field'')]))
   \<and> upload_single plain (submitted\<lparr>studentName := None\<rparr>) = Inr (application\<lparr>studentName := None\<rparr>)
   \<and> falsy (studentName (submitted\<lparr>studentName := None\<rparr>))
   \<and> issue_route plain moment (submitted\<lparr>studentName := None\<rparr>) office
        = (office, Response 400 (JObject [(''error'', JString ''Missing required metadata fields'')]))
   \<and> upload_single plain submitted = Inr application
   \<and> \<not> falsy (studentName submitted) \<and> \<not> falsy (courseName submitted)
   \<and> \<not> falsy (institution submitted) \<and> web3Ready office
   \<and> req_file application = Some [1, 2, 3]
   \<and> issue_route plain moment submitted office
        = issue_pipeline plain moment [1, 2, 3]
            (JObject [(''studentName'', JString ''Ada''), (''courseName'', JString ''Logic''),
                      (''institution'', JString ''Kings'')]) office
   \<and> status (snd (issue_route plain moment submitted office)) = 200
   \<and> fs_files (fst (issue_route plain moment submitted office))
        = (fs_files office)(''local-1700000000123-k3x9.json'' \<mapsto> ''b'')"
proof -
  let ?p = "submitted\<lparr>file_parts := [(''photo'', [1, 2, 3])]\<rparr>"
  let ?s = "submitted\<lparr>studentName := None\<rparr>"
  let ?r = "application\<lparr>studentName := None\<rparr>"
  have p: "upload_single plain ?p = Inl (JsError ''Unexpected field'')"
    by (rule upload_unexpected [where field = "''photo''"]) simp_all
  have u: "upload_single plain ?s = Inr ?r" by (rule submitted_accepted_without)
  have a: "falsy (studentName ?s)" by (simp add: falsy_def)
  have a': "upload_single plain ?s = Inr ?r
        \<and> (falsy (studentName ?s) \<or> falsy (courseName ?s) \<or> falsy (institution ?s))"
    using u a by simp
  have b: "web3Ready office" "req_file ?r \<noteq> None" "req_file application = Some [1, 2, 3]"
    by (simp_all add: office_def application_def)
  have n: "\<not> falsy (studentName submitted)" "\<not> falsy (courseName submitted)"
    "\<not> falsy (institution submitted)"
    by (simp_all add: falsy_def submitted_def)
  have c: "upload_single plain submitted = Inr application
        \<and> \<not> falsy (studentName submitted) \<and> \<not> falsy (courseName submitted)
        \<and> \<not> falsy (institution submitted) \<and> web3Ready office
        \<and> req_file application = Some [1, 2, 3]"
    using submitted_accepted n b by simp
  note t0 = validation_precedes_effects [where sub = ?p and L = plain and a = moment
      and w = office, THEN conjunct1, rule_format, OF p]
  note t1 = validation_precedes_effects [where sub = ?s and req = ?r and L = plain and a = moment
      and w = office, THEN conjunct2, THEN conjunct1, rule_format, OF a']
  note t2 = validation_precedes_effects [where sub = submitted and req = application
      and L = plain and a = moment and w = office and buffer = "[1, 2, 3]",
      THEN conjunct2, THEN conjunct2, rule_format, OF c]
  have r0: "issue_route plain moment ?p office
        = (office, Response 500 (JObject [(''error'', JString ''Unexpected field'')]))"
    unfolding t0 by (simp add: error_middleware_def office_def)
  have s: "status (snd (issue_pipeline plain moment [1, 2, 3] (metadata_of application) office)) = 200"
    by (rule office_issue_ok) (simp add: plain_def)
  have j: "JSON_stringify_indent plain x = ''b''" for x
    by (simp add: plain_def)
  from t2 have "fs_files (fst (issue_route plain moment submitted office))
        = fs_files (fst (uploadToIPFS plain moment (json_of_encrypted (encryptMetadata plain
                (randomBytes16 moment) (metadata_of application) (encryptionKey_of office)))
              office))"
    by blast
  then have f: "fs_files (fst (issue_route plain moment submitted office))
        = (fs_files office)(''local-1700000000123-k3x9.json'' \<mapsto> ''b'')"
    unfolding office_upload j local_filename_moment by simp
  from t1 b have r1: "issue_route plain moment ?s office
        = (office, Response 400 (JObject [(''error'', JString ''Missing required metadata fields'')]))"
    by simp
  from t2 have r2: "issue_route plain moment submitted office
        = issue_pipeline plain moment [1, 2, 3]
            (JObject [(''studentName'', JString ''Ada''), (''courseName'', JString ''Logic''),
                      (''institution'', JString ''Kings'')]) office"
    unfolding metadata_of_application by blast
  have s': "status (snd (issue_route plain moment submitted office)) = 200"
    using t2 s by simp
  from p r0 u a r1 submitted_accepted n b(1,3) r2 s' f show ?thesis by blast
qed

text \<open>
  The claim as it was written fails twice. A request without \<open>studentName\<close> sent while
  the ledger client is not ready is answered 503 "Web3 not initialized", which is not a
  validation error: the readiness guard comes first. And a request whose three required
  fields are all present, one of them empty, is refused by the validation.
\<close>

theorem validation_not_first_counterexample:
  "upload_single plain (submitted\<lparr>studentName := None\<rparr>) = Inr (application\<lparr>studentName := None\<rparr>)
   \<and> studentName (submitted\<lparr>studentName := None\<rparr>) = None
   \<and> issue_route plain moment (submitted\<lparr>studentName := None\<rparr>) starting
        = (starting, Response 503 (JObject [(''error'', JString ''Web3 not initialized'')]))
   \<and> upload_single plain (submitted\<lparr>studentName := Some []\<rparr>)
        = Inr (application\<lparr>studentName := Some []\<rparr>)
   \<and> studentName (submitted\<lparr>studentName := Some []\<rparr>) = Some []
   \<and> courseName (submitted\<lparr>studentName := Some []\<rparr>) = Some ''Logic''
   \<and> institution (submitted\<lparr>studentName := Some []\<rparr>) = Some ''Kings''
   \<and> issue_route plain moment (submitted\<lparr>studentName := Some []\<rparr>) office
        = (office, Response 400 (JObject [(''error'', JString ''Missing required metadata fields'')]))"
proof -
  have "issue_route plain moment (submitted\<lparr>studentName := None\<rparr>) starting
        = (starting, Response 503 (JObject [(''error'', JString ''Web3 not initialized'')]))"
    by (simp add: issue_route_def submitted_accepted_without issue_handler_def starting_def)
  moreover have "issue_route plain moment (submitted\<lparr>studentName := Some []\<rparr>) office
        = (office, Response 400 (JObject [(''error'', JString ''Missing required metadata fields'')]))"
    by (simp add: issue_route_def submitted_accepted_without issue_handler_def Let_def falsy_def
        application_def office_def)
  ultimately show ?thesis
    by (simp add: submitted_accepted_without) (simp add: submitted_def)
qed

section \<open>Verification\<close>

text \<open>
  Past its two guards, and with the ledger answering, the route is decided by the record
  under the file's fingerprint.
\<close>

lemma verify_handler_reads:
  assumes "web3Ready w" and "req_file req = Some buffer" and "contract w"
    and "rpc_failure w = None"
  shows "verify_handler L req w =
     (if \<not> exists (certificates (chain w) (sha256 L buffer))
      then Response 200 (JObject
             [(''valid'', JBool False),
              (''message'', JString ''Certificate not found on blockchain''),
              (''docHash'', JString (hashDocumentForBlockchain L buffer))])
      else (case issuedDate_of L (unat (timestamp (certificates (chain w) (sha256 L buffer)))) of
              Inl e \<Rightarrow> failed ''Failed to verify certificate'' e
            | Inr issuedDate \<Rightarrow>
                Response 200 (JObject
                  [(''valid'', JBool True),
                   (''message'', JString ''Certificate is valid''),
                   (''certificate'', JObject
                      [(''docHash'', JString (hashDocumentForBlockchain L buffer)),
                       (''issuer'', JString (ethers_address L
                           (issuer (certificates (chain w) (sha256 L buffer))))),
                       (''timestamp'', JString (decimal
                           (unat (timestamp (certificates (chain w) (sha256 L buffer)))))),
                       (''ipfsCID'', JString (ipfsCID (certificates (chain w) (sha256 L buffer)))),
                       (''metadata'',
                          case retrieve_and_decrypt L
                                 (ipfsCID (certificates (chain w) (sha256 L buffer))) w of
                            Inl e \<Rightarrow> JNull
                          | Inr m \<Rightarrow> m),
                       (''issuedDate'', JString issuedDate)])])))"
  using assms by (simp add: verify_handler_def web3_verify_cases Let_def split: sum.split)

lemma issuedDate_in_range:
  "seconds \<le> 8640000000000 \<Longrightarrow>
     issuedDate_of L seconds = Inr (Date_toISOString L (seconds * 1000))"
  by (simp add: issuedDate_of_def)

lemma issuedDate_out_of_range:
  "8640000000000 < seconds \<Longrightarrow> issuedDate_of L seconds = Inl (JsError ''Invalid time value'')"
  by (simp add: issuedDate_of_def)

text \<open>
  Claim C2 (the ledger lookup decides validity). A request whose upload the middleware
  refuses is answered 500 by the error middleware. Of the others, the verification route
  answers 503 "Web3 not initialized" while the ledger client is not ready, else 400 when
  no file was uploaded, else 500 when the ledger cannot be read (no contract handle, or
  the call fails). When the ledger is read: for a file whose fingerprint has no record
  the answer is \<open>valid: false\<close>; for a file whose fingerprint has a record, stamped with
  a time a JavaScript \<open>Date\<close> can hold (at most 8640000000000 seconds), the answer is
  \<open>valid: true\<close> with the record's issuer, timestamp and reference, and with \<open>metadata\<close>
  the decrypted blob, or \<open>null\<close> when fetching or decrypting it fails. The blob decides
  nothing but that one field.
\<close>

theorem verify_follows_ledger:
  "(upload_single L sub = Inl e \<longrightarrow> verify_route L sub w = error_middleware L w e)
   \<and> (upload_single L sub = Inr req \<and> \<not> web3Ready w \<longrightarrow>
      verify_route L sub w = Response 503 (JObject [(''error'', JString ''Web3 not initialized'')]))
   \<and> (upload_single L sub = Inr req \<and> web3Ready w \<and> req_file req = None \<longrightarrow>
      verify_route L sub w
        = Response 400 (JObject [(''error'', JString ''No certificate file provided'')]))
   \<and> (upload_single L sub = Inr req \<and> web3Ready w \<and> req_file req = Some buffer
        \<and> (\<not> contract w \<or> rpc_failure w \<noteq> None) \<longrightarrow>
      status (verify_route L sub w) = 500)
   \<and> (upload_single L sub = Inr req \<and> web3Ready w \<and> req_file req = Some buffer
        \<and> contract w \<and> rpc_failure w = None
        \<and> \<not> exists (certificates (chain w) (sha256 L buffer)) \<longrightarrow>
      verify_route L sub w = Response 200 (JObject
             [(''valid'', JBool False),
              (''message'', JString ''Certificate not found on blockchain''),
              (''docHash'', JString (hashDocumentForBlockchain L buffer))]))
   \<and> (upload_single L sub = Inr req \<and> web3Ready w \<and> req_file req = Some buffer
        \<and> contract w \<and> rpc_failure w = None
        \<and> exists (certificates (chain w) (sha256 L buffer))
        \<and> unat (timestamp (certificates (chain w) (sha256 L buffer))) \<le> 8640000000000 \<longrightarrow>
      verify_route L sub w = Response 200 (JObject
                  [(''valid'', JBool True),
                   (''message'', JString ''Certificate is valid''),
                   (''certificate'', JObject
                      [(''docHash'', JString (hashDocumentForBlockchain L buffer)),
                       (''issuer'', JString (ethers_address L
                           (issuer (certificates (chain w) (sha256 L buffer))))),
                       (''timestamp'', JString (decimal
                           (unat (timestamp (certificates (chain w) (sha256 L buffer)))))),
                       (''ipfsCID'', JString (ipfsCID (certificates (chain w) (sha256 L buffer)))),
                       (''metadata'',
                          case retrieve_and_decrypt L
                                 (ipfsCID (certificates (chain w) (sha256 L buffer))) w of
                            Inl e \<Rightarrow> JNull
                          | Inr m \<Rightarrow> m),
                       (''issuedDate'', JString (Date_toISOString L
                           (unat (timestamp (certificates (chain w) (sha256 L buffer)))
                              * 1000)))])]))"
proof (intro conjI impI)
  assume "upload_single L sub = Inl e"
  then show "verify_route L sub w = error_middleware L w e"
    by (simp add: verify_route_def)
next
  assume "upload_single L sub = Inr req \<and> \<not> web3Ready w"
  then show "verify_route L sub w
      = Response 503 (JObject [(''error'', JString ''Web3 not initialized'')])"
    by (simp add: verify_route_def verify_handler_def)
next
  assume "upload_single L sub = Inr req \<and> web3Ready w \<and> req_file req = None"
  then show "verify_route L sub w
      = Response 400 (JObject [(''error'', JString ''No certificate file provided'')])"
    by (simp add: verify_route_def verify_handler_def)
next
  assume h: "upload_single L sub = Inr req \<and> web3Ready w \<and> req_file req = Some buffer
        \<and> (\<not> contract w \<or> rpc_failure w \<noteq> None)"
  then have "\<exists>e. web3_verifyCertificate L (hashDocumentForBlockchain L buffer) w = Inl e"
    by (auto simp: web3_verify_cases)
  then obtain e where "web3_verifyCertificate L (hashDocumentForBlockchain L buffer) w = Inl e" ..
  then have "verify_route L sub w = failed ''Failed to verify certificate'' e"
    using h by (simp add: verify_route_def verify_handler_def Let_def)
  then show "status (verify_route L sub w) = 500"
    by (simp add: status_failed)
next
  assume h: "upload_single L sub = Inr req \<and> web3Ready w \<and> req_file req = Some buffer
        \<and> contract w \<and> rpc_failure w = None
        \<and> \<not> exists (certificates (chain w) (sha256 L buffer))"
  then have "verify_route L sub w = verify_handler L req w"
    by (simp add: verify_route_def)
  with h show "verify_route L sub w = Response 200 (JObject
             [(''valid'', JBool False),
              (''message'', JString ''Certificate not found on blockchain''),
              (''docHash'', JString (hashDocumentForBlockchain L buffer))])"
    by (simp add: verify_handler_reads)
next
  assume h: "upload_single L sub = Inr req \<and> web3Ready w \<and> req_file req = Some buffer
        \<and> contract w \<and> rpc_failure w = None
        \<and> exists (certificates (chain w) (sha256 L buffer))
        \<and> unat (timestamp (certificates (chain w) (sha256 L buffer))) \<le> 8640000000000"
  then have "verify_route L sub w = verify_handler L req w"
    by (simp add: verify_route_def)
  with h show "verify_route L sub w = Response 200 (JObject
                  [(''valid'', JBool True),
                   (''message'', JString ''Certificate is valid''),
                   (''certificate'', JObject
                      [(''docHash'', JString (hashDocumentForBlockchain L buffer)),
                       (''issuer'', JString (ethers_address L
                           (issuer (certificates (chain w) (sha256 L buffer))))),
                       (''timestamp'', JString (decimal
                           (unat (timestamp (certificates (chain w) (sha256 L buffer)))))),
                       (''ipfsCID'', JString (ipfsCID (certificates (chain w) (sha256 L buffer)))),
                       (''metadata'',
                          case retrieve_and_decrypt L
                                 (ipfsCID (certificates (chain w) (sha256 L buffer))) w of
                            Inl e \<Rightarrow> JNull
                          | Inr m \<Rightarrow> m),
                       (''issuedDate'', JString (Date_toISOString L
                           (unat (timestamp (certificates (chain w) (sha256 L buffer)))
                              * 1000)))])])"
    by (simp add: verify_handler_reads issuedDate_in_range)
qed

text \<open>
  Beyond that range the route does not answer \<open>valid: true\<close>: a \<open>Date\<close> cannot hold the
  time, formatting it throws, and the handler's \<open>catch\<close> answers 500.
\<close>

lemma verify_route_date_out_of_range:
  assumes "upload_single L sub = Inr req"
    and "web3Ready w" and "req_file req = Some buffer" and "contract w"
    and "rpc_failure w = None" and "exists (certificates (chain w) (sha256 L buffer))"
    and "8640000000000 < unat (timestamp (certificates (chain w) (sha256 L buffer)))"
  shows "verify_route L sub w
           = Response 500 (JObject [(''error'', JString ''Failed to verify certificate''),
                                    (''details'', JString ''Invalid time value'')])"
  using assms
  by (simp add: verify_route_def verify_handler_reads issuedDate_out_of_range failed_def)

lemma plain_fields:
  "sha256 plain b = 7" "ethers_address plain x = ''0x01''"
  "Date_toISOString plain n = ''2023-11-14T22:13:20.000Z''"
  by (simp_all add: plain_def)

lemma plain_docHash:
  "hashDocumentForBlockchain plain b
     = ''0x0000000000000000000000000000000000000000000000000000000000000007''"
proof -
  have "to_hex (bytes_be 32 7)
          = ''0000000000000000000000000000000000000000000000000000000000000007''"
    by code_simp
  then show ?thesis
    by (simp add: hashDocumentForBlockchain_def hashDocument_def plain_fields)
qed

lemma decimal_1700000000: "decimal 1700000000 = ''1700000000''"
  by (simp add: decimal.simps char_of_def bit_0 bit_Suc)

lemma issued_record:
  "certificates issued 7 = \<lparr>docHash = 7, ipfsCID = ''Qm'', issuer = 1,
                  timestamp = 1700000000, exists = True\<rparr>"
  by (simp add: issued_def genesis_def)

lemma office_nothing_stored:
  "retrieve_and_decrypt L ''Qm'' (office\<lparr>chain := issued\<rparr>)
     = Inl (JsError ''Failed to retrieve data from local storage'')"
  by (simp add: retrieve_and_decrypt_def retrieveFromIPFS_def retrieveFromLocalStorage_def
      office_def)

theorem verify_follows_ledger_witness:
  "upload_single plain (submitted\<lparr>file_parts := [(''photo'', [1, 2, 3])]\<rparr>)
        = Inl (JsError ''Unexpected field'')
   \<and> verify_route plain (submitted\<lparr>file_parts := [(''photo'', [1, 2, 3])]\<rparr>) office
        = Response 500 (JObject [(''error'', JString ''Unexpected field'')])
   \<and> upload_single plain submitted = Inr application \<and> \<not> web3Ready starting
   \<and> verify_route plain submitted starting
        = Response 503 (JObject [(''error'', JString ''Web3 not initialized'')])
   \<and> upload_single plain (submitted\<lparr>file_parts := []\<rparr>) = Inr (application\<lparr>req_file := None\<rparr>)
   \<and> web3Ready office \<and> req_file (application\<lparr>req_file := None\<rparr>) = None
   \<and> verify_route plain (submitted\<lparr>file_parts := []\<rparr>) office
        = Response 400 (JObject [(''error'', JString ''No certificate file provided'')])
   \<and> req_file application = Some [1, 2, 3]
   \<and> rpc_failure (office\<lparr>rpc_failure := Some ''connect ECONNREFUSED''\<rparr>) \<noteq> None
   \<and> status (verify_route plain submitted (office\<lparr>rpc_failure := Some ''connect ECONNREFUSED''\<rparr>))
        = 500
   \<and> contract office \<and> rpc_failure office = None
   \<and> \<not> exists (certificates (chain office) (sha256 plain [1, 2, 3]))
   \<and> verify_route plain submitted office = Response 200 (JObject
             [(''valid'', JBool False),
              (''message'', JString ''Certificate not found on blockchain''),
              (''docHash'', JString
                 ''0x0000000000000000000000000000000000000000000000000000000000000007'')])
   \<and> exists (certificates (chain (office\<lparr>chain := issued\<rparr>)) (sha256 plain [1, 2, 3]))
   \<and> unat (timestamp (certificates (chain (office\<lparr>chain := issued\<rparr>)) (sha256 plain [1, 2, 3])))
        \<le> 8640000000000
   \<and> verify_route plain submitted (office\<lparr>chain := issued\<rparr>) = Response 200 (JObject
                  [(''valid'', JBool True),
                   (''message'', JString ''Certificate is valid''),
                   (''certificate'', JObject
                      [(''docHash'', JString
                         ''0x0000000000000000000000000000000000000000000000000000000000000007''),
                       (''issuer'', JString ''0x01''),
                       (''timestamp'', JString ''1700000000''),
                       (''ipfsCID'', JString ''Qm''),
                       (''metadata'', JNull),
                       (''issuedDate'', JString ''2023-11-14T22:13:20.000Z'')])])"
proof -
  let ?photo = "submitted\<lparr>file_parts := [(''photo'', [1, 2, 3])]\<rparr>"
  let ?nofile = "submitted\<lparr>file_parts := []\<rparr>"
  let ?none = "application\<lparr>req_file := None\<rparr>"
  let ?down = "office\<lparr>rpc_failure := Some ''connect ECONNREFUSED''\<rparr>"
  let ?held = "office\<lparr>chain := issued\<rparr>"
  have p: "upload_single plain ?photo = Inl (JsError ''Unexpected field'')"
    by (rule upload_unexpected [where field = "''photo''"]) simp_all
  have u: "upload_single plain submitted = Inr application" by (rule submitted_accepted)
  have v: "upload_single plain ?nofile = Inr ?none" by (rule submitted_accepted_without)
  have g: "web3Ready office" "contract office" "rpc_failure office = None"
    "req_file application = Some [1, 2, 3]" "req_file ?none = None"
    by (simp_all add: office_def application_def)
  have s: "\<not> web3Ready starting" by (simp add: starting_def)
  have d: "rpc_failure ?down \<noteq> None" by simp
  have a1: "upload_single plain submitted = Inr application \<and> \<not> web3Ready starting"
    using u s by simp
  have a2: "upload_single plain ?nofile = Inr ?none \<and> web3Ready office \<and> req_file ?none = None"
    using v g by simp
  have a3: "upload_single plain submitted = Inr application \<and> web3Ready ?down
             \<and> req_file application = Some [1, 2, 3]
             \<and> (\<not> contract ?down \<or> rpc_failure ?down \<noteq> None)"
    using u g by simp
  have n: "\<not> exists (certificates (chain office) (sha256 plain [1, 2, 3]))"
    by (simp add: plain_fields office_def genesis_def zeroCertificate_def)
  have a4: "upload_single plain submitted = Inr application \<and> web3Ready office
        \<and> req_file application = Some [1, 2, 3] \<and> contract office
        \<and> rpc_failure office = None
        \<and> \<not> exists (certificates (chain office) (sha256 plain [1, 2, 3]))"
    using u g n by simp
  have c: "certificates (chain ?held) (sha256 plain [1, 2, 3])
        = \<lparr>docHash = 7, ipfsCID = ''Qm'', issuer = 1, timestamp = 1700000000, exists = True\<rparr>"
    by (simp add: plain_fields issued_record)
  have x: "exists (certificates (chain ?held) (sha256 plain [1, 2, 3]))"
    and t: "unat (timestamp (certificates (chain ?held) (sha256 plain [1, 2, 3]))) = 1700000000"
    unfolding c by simp_all
  have a5: "upload_single plain submitted = Inr application \<and> web3Ready ?held
        \<and> req_file application = Some [1, 2, 3] \<and> contract ?held
        \<and> rpc_failure ?held = None
        \<and> exists (certificates (chain ?held) (sha256 plain [1, 2, 3]))
        \<and> unat (timestamp (certificates (chain ?held) (sha256 plain [1, 2, 3]))) \<le> 8640000000000"
    using u g x t by simp
  note th = verify_follows_ledger
  note t0 = th [where sub = ?photo and L = plain and w = office,
      THEN conjunct1, rule_format, OF p]
  note t1 = th [where sub = submitted and req = application and L = plain and w = starting,
      THEN conjunct2, THEN conjunct1, rule_format, OF a1]
  note t2 = th [where sub = ?nofile and req = ?none and L = plain and w = office,
      THEN conjunct2, THEN conjunct2, THEN conjunct1, rule_format, OF a2]
  note t3 = th [where sub = submitted and req = application and L = plain and w = ?down
      and buffer = "[1, 2, 3]",
      THEN conjunct2, THEN conjunct2, THEN conjunct2, THEN conjunct1, rule_format, OF a3]
  note t4 = th [where sub = submitted and req = application and L = plain and w = office
      and buffer = "[1, 2, 3]",
      THEN conjunct2, THEN conjunct2, THEN conjunct2, THEN conjunct2, THEN conjunct1,
      rule_format, OF a4]
  note t5 = th [where sub = submitted and req = application and L = plain and w = ?held
      and buffer = "[1, 2, 3]",
      THEN conjunct2, THEN conjunct2, THEN conjunct2, THEN conjunct2, THEN conjunct2,
      rule_format, OF a5]
  have r0: "verify_route plain ?photo office
        = Response 500 (JObject [(''error'', JString ''Unexpected field'')])"
    unfolding t0 by (simp add: error_middleware_def office_def)
  have r4: "verify_route plain submitted office = Response 200 (JObject
             [(''valid'', JBool False),
              (''message'', JString ''Certificate not found on blockchain''),
              (''docHash'', JString
                 ''0x0000000000000000000000000000000000000000000000000000000000000007'')])"
    unfolding t4 plain_docHash by (rule refl)
  have r5: "verify_route plain submitted ?held = Response 200 (JObject
                  [(''valid'', JBool True),
                   (''message'', JString ''Certificate is valid''),
                   (''certificate'', JObject
                      [(''docHash'', JString
                         ''0x0000000000000000000000000000000000000000000000000000000000000007''),
                       (''issuer'', JString ''0x01''),
                       (''timestamp'', JString ''1700000000''),
                       (''ipfsCID'', JString ''Qm''),
                       (''metadata'', JNull),
                       (''issuedDate'', JString ''2023-11-14T22:13:20.000Z'')])])"
    unfolding t5 t plain_docHash unfolding c
    by (simp add: plain_fields office_nothing_stored decimal_1700000000)
  have t': "unat (timestamp (certificates (chain ?held) (sha256 plain [1, 2, 3])))
        \<le> 8640000000000"
    using t by simp
  from p r0 u s t1 v g t2 d t3 n r4 x t' r5 show ?thesis by blast
qed

text \<open>
  The claim as it was written fails at the first guard: the ledger holds a record for
  the file's fingerprint, the upload is let through, and the route, whose ledger client
  is not ready, answers 503.
\<close>

theorem verify_gate_counterexample:
  "bytes32_of (hashDocumentForBlockchain plain [1, 2, 3]) = Inr 7
   \<and> exists (certificates (chain starting) 7)
   \<and> upload_single plain submitted = Inr application
   \<and> req_file application = Some [1, 2, 3]
   \<and> verify_route plain submitted starting
        = Response 503 (JObject [(''error'', JString ''Web3 not initialized'')])"
proof -
  have "verify_route plain submitted starting
        = Response 503 (JObject [(''error'', JString ''Web3 not initialized'')])"
    by (simp add: verify_route_def submitted_accepted verify_handler_def starting_def)
  moreover have "exists (certificates (chain starting) 7)"
    by (simp add: starting_def issued_record)
  moreover have "req_file application = Some [1, 2, 3]"
    by (simp add: application_def)
  ultimately show ?thesis
    by (simp add: bytes32_of_hashDocument plain_fields submitted_accepted)
qed

section \<open>From issuance to verification\<close>

text \<open>
  An issuance answered 200 went through every step: the upload was let through with a
  file, the blob is stored under the reference the store returned, the ledger holds a
  record for the file's fingerprint with that reference, and nothing else of the state
  that verification reads has moved.
\<close>

lemma issue_handler_ok:
  assumes "status (snd (issue_handler L a req w)) = 200"
  shows "web3Ready w \<and> (\<exists>buffer. req_file req = Some buffer
           \<and> issue_handler L a req w = issue_pipeline L a buffer (metadata_of req) w)"
  using assms by (auto simp: issue_handler_def Let_def split: if_splits option.splits)

lemma issue_route_ok:
  assumes "status (snd (issue_route L a sub w)) = 200"
  shows "\<exists>req. upload_single L sub = Inr req \<and> issue_route L a sub w = issue_handler L a req w"
proof (cases "upload_single L sub")
  case (Inl e)
  with assms show ?thesis by (simp add: issue_route_def upload_refused_status)
next
  case (Inr req)
  then show ?thesis by (simp add: issue_route_def)
qed

lemma issued_state:
  assumes ok: "status (snd (issue_route L a sub w)) = 200"
    and u: "upload_single L sub = Inr req"
    and f: "req_file req = Some buffer" and s: "signer w = Some sender"
    and up: "snd (uploadToIPFS L a (json_of_encrypted (encryptMetadata L (randomBytes16 a)
                  (metadata_of req) (encryptionKey_of w))) w) = Inr cid"
  shows "\<exists>c rows.
           issueCertificate \<lparr>msg_sender = sender, block_timestamp = tx_timestamp a\<rparr>
               (sha256 L buffer) cid (chain w) = Inr c
         \<and> fst (issue_route L a sub w)
             = (fst (uploadToIPFS L a (json_of_encrypted (encryptMetadata L (randomBytes16 a)
                  (metadata_of req) (encryptionKey_of w))) w))\<lparr>chain := c, db_rows := rows\<rparr>
         \<and> web3Ready w \<and> contract w \<and> rpc_failure w = None"
proof -
  have h: "issue_route L a sub w = issue_handler L a req w"
    by (simp add: issue_route_def u)
  from ok have ok': "status (snd (issue_handler L a req w)) = 200"
    unfolding h .
  from issue_handler_ok [OF ok'] f
  have r: "web3Ready w"
    and p: "issue_handler L a req w = issue_pipeline L a buffer (metadata_of req) w"
    by auto
  from ok' have "status (snd (issue_pipeline L a buffer (metadata_of req) w)) = 200"
    unfolding p .
  from issue_pipeline_ok [OF this] s up r show ?thesis
    unfolding h p by auto
qed

lemma issued_then_read:
  assumes ok: "status (snd (issue_route L a sub w)) = 200"
    and u: "upload_single L sub = Inr req"
    and f: "req_file req = Some buffer" and s: "signer w = Some sender"
    and up: "snd (uploadToIPFS L a (json_of_encrypted (encryptMetadata L (randomBytes16 a)
                  (metadata_of req) (encryptionKey_of w))) w) = Inr cid"
    and lib: "library_inverts L (randomBytes16 a) (metadata_of req) (encryptionKey_of w)"
    and rd: "blob_readable L (json_of_encrypted (encryptMetadata L (randomBytes16 a)
                  (metadata_of req) (encryptionKey_of w)))"
  shows "retrieve_and_decrypt L cid (fst (issue_route L a sub w)) = Inr (metadata_of req)"
proof -
  let ?e = "encryptMetadata L (randomBytes16 a) (metadata_of req) (encryptionKey_of w)"
  let ?up = "uploadToIPFS L a (json_of_encrypted ?e) w"
  from issued_state [OF ok u f s up] obtain c rows
    where w': "fst (issue_route L a sub w) = (fst ?up)\<lparr>chain := c, db_rows := rows\<rparr>"
    by blast
  have k: "encryptionKey_of ((fst ?up)\<lparr>chain := c, db_rows := rows\<rparr>) = encryptionKey_of w"
    by (simp add: encryptionKey_of_def upload_keeps)
  have "retrieveFromIPFS L cid ((fst ?up)\<lparr>chain := c, db_rows := rows\<rparr>)
          = retrieveFromIPFS L cid (fst ?up)"
    by (simp only: retrieve_frame)
  also have "\<dots> = Inr (json_of_encrypted ?e)"
    by (rule upload_then_retrieve [OF up rd])
  finally have g: "retrieveFromIPFS L cid ((fst ?up)\<lparr>chain := c, db_rows := rows\<rparr>)
          = Inr (json_of_encrypted ?e)" .
  have m: "member (json_of_encrypted ?e) ''encrypted'' = Inr (Some (JString (encrypted ?e)))"
    "member (json_of_encrypted ?e) ''iv'' = Inr (Some (JString (iv ?e)))"
    by (simp_all add: json_of_encrypted_def)
  show ?thesis
    unfolding w' retrieve_and_decrypt_def g k by (simp add: m decrypt_encrypt [OF lib])
qed

text \<open>What verification of the same file then answers, whatever the time on the ledger.\<close>

lemma issued_then_verified:
  assumes ok: "status (snd (issue_route L a sub w)) = 200"
    and u: "upload_single L sub = Inr req"
    and f: "req_file req = Some buffer" and s: "signer w = Some sender"
    and up: "snd (uploadToIPFS L a (json_of_encrypted (encryptMetadata L (randomBytes16 a)
                  (metadata_of req) (encryptionKey_of w))) w) = Inr cid"
    and lib: "library_inverts L (randomBytes16 a) (metadata_of req) (encryptionKey_of w)"
    and rd: "blob_readable L (json_of_encrypted (encryptMetadata L (randomBytes16 a)
                  (metadata_of req) (encryptionKey_of w)))"
    and u': "upload_single L sub' = Inr req'"
    and f': "req_file req' = Some buffer"
  shows "verify_route L sub' (fst (issue_route L a sub w)) =
     (case issuedDate_of L (unat (tx_timestamp a)) of
        Inl e \<Rightarrow> failed ''Failed to verify certificate'' e
      | Inr issuedDate \<Rightarrow>
          Response 200 (JObject
                  [(''valid'', JBool True),
                   (''message'', JString ''Certificate is valid''),
                   (''certificate'', JObject
                      [(''docHash'', JString (hashDocumentForBlockchain L buffer)),
                       (''issuer'', JString (ethers_address L sender)),
                       (''timestamp'', JString (decimal (unat (tx_timestamp a)))),
                       (''ipfsCID'', JString cid),
                       (''metadata'', metadata_of req),
                       (''issuedDate'', JString issuedDate)])]))"
proof -
  let ?e = "encryptMetadata L (randomBytes16 a) (metadata_of req) (encryptionKey_of w)"
  let ?up = "uploadToIPFS L a (json_of_encrypted ?e) w"
  let ?w = "fst (issue_route L a sub w)"
  from issued_state [OF ok u f s up] obtain c rows
    where c: "issueCertificate \<lparr>msg_sender = sender, block_timestamp = tx_timestamp a\<rparr>
               (sha256 L buffer) cid (chain w) = Inr c"
      and w': "?w = (fst ?up)\<lparr>chain := c, db_rows := rows\<rparr>"
      and g: "web3Ready w" "contract w" "rpc_failure w = None"
    by blast
  have g': "web3Ready ?w" "contract ?w" "rpc_failure ?w = None" and ch: "chain ?w = c"
    unfolding w' using g by (simp_all add: upload_keeps)
  have rec: "certificates (chain ?w) (sha256 L buffer)
        = \<lparr>docHash = sha256 L buffer, ipfsCID = cid, issuer = sender,
           timestamp = tx_timestamp a, exists = True\<rparr>"
    unfolding ch using issue_success_record [OF c] by simp
  have m: "retrieve_and_decrypt L cid ?w = Inr (metadata_of req)"
    by (rule issued_then_read [OF ok u f s up lib rd])
  have v: "verify_route L sub' ?w = verify_handler L req' ?w"
    by (simp add: verify_route_def u')
  show ?thesis
    unfolding v verify_handler_reads [OF g'(1) f' g'(2,3)] rec
    by (simp add: m split: sum.split)
qed

text \<open>
  Claim C4 (the metadata round trip). Where the library's decipher undoes its cipher and
  its parser undoes its printer, \<open>decryptMetadata\<close> under the same vector and key returns
  the record \<open>encryptMetadata\<close> was given, for every record and key. So after an issuance
  answered 200, whose blob the store can print and parse back, the metadata of the
  request is the text fields that were sent, each under its name; fetching the blob by
  the reference on the ledger and decrypting it gives that metadata; and verification of
  the same file, when the time the ledger stamped on the record is one a JavaScript
  \<open>Date\<close> can hold (at most 8640000000000 seconds), answers \<open>valid: true\<close> with exactly
  that metadata.
\<close>

theorem metadata_round_trip:
  "(library_inverts L random data key \<longrightarrow>
      decryptMetadata L (Some (JString (encrypted (encryptMetadata L random data key))))
        (Some (JString (iv (encryptMetadata L random data key)))) key = Inr data)
   \<and> (status (snd (issue_route L a sub w)) = 200
      \<and> upload_single L sub = Inr req
      \<and> req_file req = Some buffer \<and> signer w = Some sender
      \<and> snd (uploadToIPFS L a (json_of_encrypted (encryptMetadata L (randomBytes16 a)
                  (metadata_of req) (encryptionKey_of w))) w) = Inr cid
      \<and> library_inverts L (randomBytes16 a) (metadata_of req) (encryptionKey_of w)
      \<and> blob_readable L (json_of_encrypted (encryptMetadata L (randomBytes16 a)
                  (metadata_of req) (encryptionKey_of w))) \<longrightarrow>
        metadata_of req =
          JObject (List.map_filter (\<lambda>(k, v). map_option (\<lambda>s. (k, JString s)) v)
            [(''studentName'', studentName sub), (''courseName'', courseName sub),
             (''institution'', institution sub), (''issueDate'', issueDate sub),
             (''grade'', grade sub), (''additionalInfo'', additionalInfo sub)])
      \<and> retrieve_and_decrypt L cid (fst (issue_route L a sub w)) = Inr (metadata_of req)
      \<and> (upload_single L sub' = Inr req' \<and> req_file req' = Some buffer
          \<and> unat (tx_timestamp a) \<le> 8640000000000 \<longrightarrow>
           verify_route L sub' (fst (issue_route L a sub w)) = Response 200 (JObject
                  [(''valid'', JBool True),
                   (''message'', JString ''Certificate is valid''),
                   (''certificate'', JObject
                      [(''docHash'', JString (hashDocumentForBlockchain L buffer)),
                       (''issuer'', JString (ethers_address L sender)),
                       (''timestamp'', JString (decimal (unat (tx_timestamp a)))),
                       (''ipfsCID'', JString cid),
                       (''metadata'', metadata_of req),
                       (''issuedDate'', JString (Date_toISOString L
                           (unat (tx_timestamp a) * 1000)))])])))"
proof (intro conjI impI)
  assume "library_inverts L random data key"
  then show "decryptMetadata L (Some (JString (encrypted (encryptMetadata L random data key))))
        (Some (JString (iv (encryptMetadata L random data key)))) key = Inr data"
    by (rule decrypt_encrypt)
next
  assume h: "status (snd (issue_route L a sub w)) = 200
      \<and> upload_single L sub = Inr req
      \<and> req_file req = Some buffer \<and> signer w = Some sender
      \<and> snd (uploadToIPFS L a (json_of_encrypted (encryptMetadata L (randomBytes16 a)
                  (metadata_of req) (encryptionKey_of w))) w) = Inr cid
      \<and> library_inverts L (randomBytes16 a) (metadata_of req) (encryptionKey_of w)
      \<and> blob_readable L (json_of_encrypted (encryptMetadata L (randomBytes16 a)
                  (metadata_of req) (encryptionKey_of w)))"
  then have ok: "status (snd (issue_route L a sub w)) = 200"
    and u: "upload_single L sub = Inr req"
    and f: "req_file req = Some buffer" and s: "signer w = Some sender"
    and up: "snd (uploadToIPFS L a (json_of_encrypted (encryptMetadata L (randomBytes16 a)
                  (metadata_of req) (encryptionKey_of w))) w) = Inr cid"
    and lib: "library_inverts L (randomBytes16 a) (metadata_of req) (encryptionKey_of w)"
    and rd: "blob_readable L (json_of_encrypted (encryptMetadata L (randomBytes16 a)
                  (metadata_of req) (encryptionKey_of w)))"
    by blast+
  show "metadata_of req =
          JObject (List.map_filter (\<lambda>(k, v). map_option (\<lambda>s. (k, JString s)) v)
            [(''studentName'', studentName sub), (''courseName'', courseName sub),
             (''institution'', institution sub), (''issueDate'', issueDate sub),
             (''grade'', grade sub), (''additionalInfo'', additionalInfo sub)])"
    by (rule metadata_of_accepted [OF u])
  show "retrieve_and_decrypt L cid (fst (issue_route L a sub w)) = Inr (metadata_of req)"
    by (rule issued_then_read [OF ok u f s up lib rd])
  assume h': "upload_single L sub' = Inr req' \<and> req_file req' = Some buffer
          \<and> unat (tx_timestamp a) \<le> 8640000000000"
  then have u': "upload_single L sub' = Inr req'" and f': "req_file req' = Some buffer"
    and t: "unat (tx_timestamp a) \<le> 8640000000000"
    by blast+
  show "verify_route L sub' (fst (issue_route L a sub w)) = Response 200 (JObject
                  [(''valid'', JBool True),
                   (''message'', JString ''Certificate is valid''),
                   (''certificate'', JObject
                      [(''docHash'', JString (hashDocumentForBlockchain L buffer)),
                       (''issuer'', JString (ethers_address L sender)),
                       (''timestamp'', JString (decimal (unat (tx_timestamp a)))),
                       (''ipfsCID'', JString cid),
                       (''metadata'', metadata_of req),
                       (''issuedDate'', JString (Date_toISOString L
                           (unat (tx_timestamp a) * 1000)))])])"
    unfolding issued_then_verified [OF ok u f s up lib rd u' f'] issuedDate_in_range [OF t]
    by simp
qed

text \<open>
  The second stand-in library parses back the two texts the first one prints, so with it
  the concrete backend issues and then reads what it stored.
\<close>

lemma reading_fields:
  "sha256 reading b = 7" "ethers_address reading x = ''0x01''"
  "Date_toISOString reading n = ''2023-11-14T22:13:20.000Z''"
  "JSON_stringify reading j = ''m''" "JSON_stringify_indent reading j = ''b''"
  "ipfs_cid reading s = ''Qm''"
  "aes_256_cbc_decrypt reading k v (aes_256_cbc_encrypt reading k v p) = Inr p"
  "JSON_parse reading ''m''
     = Inr (JObject [(''studentName'', JString ''Ada''), (''courseName'', JString ''Logic''),
                     (''institution'', JString ''Kings'')])"
  "JSON_parse reading ''b''
     = Inr (JObject [(''encrypted'', JString ''6d''),
                     (''iv'', JString ''00000000000000000000000000000000''),
                     (''algorithm'', JString ''aes-256-cbc'')])"
  by (simp_all add: reading_def plain_def)

lemma reading_docHash:
  "hashDocumentForBlockchain reading b
     = ''0x0000000000000000000000000000000000000000000000000000000000000007''"
proof -
  have "to_hex (bytes_be 32 7)
          = ''0000000000000000000000000000000000000000000000000000000000000007''"
    by code_simp
  then show ?thesis
    by (simp add: hashDocumentForBlockchain_def hashDocument_def reading_fields)
qed

lemma reading_encrypts:
  "encryptMetadata reading 0 data key
     = \<lparr>encrypted = ''6d'', iv = ''00000000000000000000000000000000'',
        algorithm = ''aes-256-cbc''\<rparr>"
proof -
  have a: "to_hex (utf8 ''m'') = ''6d''"
    by code_simp
  have b: "to_hex (bytes_be 16 0) = ''00000000000000000000000000000000''"
    by code_simp
  have c: "aes_256_cbc_encrypt reading k v p = p" for k v p
    by (simp add: reading_def plain_def)
  show ?thesis
    by (simp add: encryptMetadata_def Let_def reading_fields a b c)
qed

lemma reading_inverts:
  "library_inverts reading random
     (JObject [(''studentName'', JString ''Ada''), (''courseName'', JString ''Logic''),
               (''institution'', JString ''Kings'')]) key"
  by (simp add: library_inverts_def reading_fields)

lemma office_key: "encryptionKey_of office = ''default-key-change-this-in-production''"
  by (simp add: encryptionKey_of_def office_def)

lemma reading_blob:
  "blob_readable reading (json_of_encrypted (encryptMetadata reading 0 data key))"
  by (simp add: blob_readable_def reading_fields reading_encrypts json_of_encrypted_def)

lemma office_issues:
  "status (snd (issue_route reading a submitted office)) = 200"
proof -
  have "issue_route reading a submitted office
        = issue_pipeline reading a [1, 2, 3] (metadata_of application) office"
    by (simp add: issue_route_def submitted_accepted issue_handler_def falsy_def
        application_def office_def)
  then show ?thesis
    using office_issue_ok [of reading "[1, 2, 3]" a "metadata_of application"]
    by (simp add: reading_fields)
qed

theorem metadata_round_trip_witness:
  "library_inverts reading 5
     (JObject [(''studentName'', JString ''Ada''), (''courseName'', JString ''Logic''),
               (''institution'', JString ''Kings'')]) ''k''
   \<and> decryptMetadata reading
        (Some (JString (encrypted (encryptMetadata reading 5
           (JObject [(''studentName'', JString ''Ada''), (''courseName'', JString ''Logic''),
                     (''institution'', JString ''Kings'')]) ''k''))))
        (Some (JString (iv (encryptMetadata reading 5
           (JObject [(''studentName'', JString ''Ada''), (''courseName'', JString ''Logic''),
                     (''institution'', JString ''Kings'')]) ''k'')))) ''k''
        = Inr (JObject [(''studentName'', JString ''Ada''), (''courseName'', JString ''Logic''),
                        (''institution'', JString ''Kings'')])
   \<and> status (snd (issue_route reading moment submitted office)) = 200
   \<and> upload_single reading submitted = Inr application
   \<and> req_file application = Some [1, 2, 3] \<and> signer office = Some 1
   \<and> snd (uploadToIPFS reading moment (json_of_encrypted (encryptMetadata reading
             (randomBytes16 moment) (metadata_of application) (encryptionKey_of office))) office)
        = Inr ''local-1700000000123-k3x9.json''
   \<and> library_inverts reading (randomBytes16 moment) (metadata_of application)
        (encryptionKey_of office)
   \<and> blob_readable reading (json_of_encrypted (encryptMetadata reading (randomBytes16 moment)
        (metadata_of application) (encryptionKey_of office)))
   \<and> unat (tx_timestamp moment) \<le> 8640000000000
   \<and> metadata_of application
        = JObject [(''studentName'', JString ''Ada''), (''courseName'', JString ''Logic''),
                   (''institution'', JString ''Kings'')]
   \<and> retrieve_and_decrypt reading ''local-1700000000123-k3x9.json''
        (fst (issue_route reading moment submitted office))
        = Inr (JObject [(''studentName'', JString ''Ada''), (''courseName'', JString ''Logic''),
                        (''institution'', JString ''Kings'')])
   \<and> verify_route reading submitted (fst (issue_route reading moment submitted office))
        = Response 200 (JObject
                  [(''valid'', JBool True),
                   (''message'', JString ''Certificate is valid''),
                   (''certificate'', JObject
                      [(''docHash'', JString
                         ''0x0000000000000000000000000000000000000000000000000000000000000007''),
                       (''issuer'', JString ''0x01''),
                       (''timestamp'', JString ''1700000000''),
                       (''ipfsCID'', JString ''local-1700000000123-k3x9.json''),
                       (''metadata'', JObject [(''studentName'', JString ''Ada''),
                          (''courseName'', JString ''Logic''),
                          (''institution'', JString ''Kings'')]),
                       (''issuedDate'', JString ''2023-11-14T22:13:20.000Z'')])])"
proof -
  let ?M = "JObject [(''studentName'', JString ''Ada''), (''courseName'', JString ''Logic''),
                     (''institution'', JString ''Kings'')]"
  let ?e = "encryptMetadata reading (randomBytes16 moment) (metadata_of application)
              (encryptionKey_of office)"
  let ?w = "fst (issue_route reading moment submitted office)"
  have r: "randomBytes16 moment = 0" by (simp add: moment_def)
  have a: "library_inverts reading 5 ?M ''k''"
    by (rule reading_inverts)
  have u: "upload_single reading submitted = Inr application" by (rule submitted_accepted)
  have f: "req_file application = Some [1, 2, 3]" and s: "signer office = Some 1"
    by (simp_all add: application_def office_def)
  have ok: "status (snd (issue_route reading moment submitted office)) = 200"
    by (rule office_issues)
  have up: "snd (uploadToIPFS reading moment (json_of_encrypted ?e) office)
        = Inr ''local-1700000000123-k3x9.json''"
    by (simp add: office_upload local_filename_moment)
  have lib: "library_inverts reading (randomBytes16 moment) (metadata_of application)
        (encryptionKey_of office)"
    unfolding metadata_of_application by (rule reading_inverts)
  have rd: "blob_readable reading (json_of_encrypted ?e)"
    unfolding r by (rule reading_blob)
  have t: "unat (tx_timestamp moment) = 1700000000"
    by (simp add: moment_def)
  have h: "status (snd (issue_route reading moment submitted office)) = 200
      \<and> upload_single reading submitted = Inr application
      \<and> req_file application = Some [1, 2, 3] \<and> signer office = Some 1
      \<and> snd (uploadToIPFS reading moment (json_of_encrypted ?e) office)
           = Inr ''local-1700000000123-k3x9.json''
      \<and> library_inverts reading (randomBytes16 moment) (metadata_of application)
           (encryptionKey_of office)
      \<and> blob_readable reading (json_of_encrypted ?e)"
    using ok u f s up lib rd by blast
  have h': "upload_single reading submitted = Inr application \<and> req_file application = Some [1, 2, 3]
        \<and> unat (tx_timestamp moment) \<le> 8640000000000"
    using u f t by simp
  note t1 = metadata_round_trip [where L = reading and random = 5
      and data = ?M and key = "''k''", THEN conjunct1, rule_format, OF a]
  note t2 = metadata_round_trip [where L = reading and a = moment and sub = submitted
      and req = application and w = office and buffer = "[1, 2, 3]" and sender = 1
      and cid = "''local-1700000000123-k3x9.json''" and sub' = submitted
      and req' = application, THEN conjunct2, rule_format, OF h]
  note t3 = t2 [THEN conjunct2, THEN conjunct1]
  note t4 = t2 [THEN conjunct2, THEN conjunct2, rule_format, OF h']
  have m: "retrieve_and_decrypt reading ''local-1700000000123-k3x9.json'' ?w = Inr ?M"
    using t3 unfolding metadata_of_application .
  have v: "verify_route reading submitted ?w = Response 200 (JObject
                  [(''valid'', JBool True),
                   (''message'', JString ''Certificate is valid''),
                   (''certificate'', JObject
                      [(''docHash'', JString
                         ''0x0000000000000000000000000000000000000000000000000000000000000007''),
                       (''issuer'', JString ''0x01''),
                       (''timestamp'', JString ''1700000000''),
                       (''ipfsCID'', JString ''local-1700000000123-k3x9.json''),
                       (''metadata'', ?M),
                       (''issuedDate'', JString ''2023-11-14T22:13:20.000Z'')])])"
    unfolding t4 t reading_docHash metadata_of_application decimal_1700000000
    by (simp add: reading_fields)
  have t': "unat (tx_timestamp moment) \<le> 8640000000000" using t by simp
  from a t1 ok u f s up lib rd t' metadata_of_application m v show ?thesis by blast
qed

text \<open>
  The claim as it was written fails where the ledger stamps the record with a time a
  \<open>Date\<close> cannot hold: the issuance is answered 200, the stored blob decrypts to the
  metadata that was sent, and verification of the same file is answered 500.
\<close>

theorem round_trip_date_counterexample:
  "status (snd (issue_route reading late submitted office)) = 200
   \<and> tx_timestamp late = 8640000000001
   \<and> retrieve_and_decrypt reading ''local-1700000000123-k3x9.json''
        (fst (issue_route reading late submitted office))
        = Inr (JObject [(''studentName'', JString ''Ada''), (''courseName'', JString ''Logic''),
                        (''institution'', JString ''Kings'')])
   \<and> verify_route reading submitted (fst (issue_route reading late submitted office))
        = Response 500 (JObject [(''error'', JString ''Failed to verify certificate''),
                                 (''details'', JString ''Invalid time value'')])"
proof -
  let ?e = "encryptMetadata reading (randomBytes16 late) (metadata_of application)
              (encryptionKey_of office)"
  have r: "randomBytes16 late = 0" and n: "local_filename late = local_filename moment"
    and t: "tx_timestamp late = 8640000000001"
    by (simp_all add: late_def moment_def local_filename_def)
  have t': "unat (tx_timestamp late) = 8640000000001"
    unfolding t by simp
  have u: "upload_single reading submitted = Inr application" by (rule submitted_accepted)
  have f: "req_file application = Some [1, 2, 3]" and s: "signer office = Some 1"
    by (simp_all add: application_def office_def)
  have ok: "status (snd (issue_route reading late submitted office)) = 200"
    by (rule office_issues)
  have up: "snd (uploadToIPFS reading late (json_of_encrypted ?e) office)
        = Inr ''local-1700000000123-k3x9.json''"
    by (simp add: office_upload n local_filename_moment)
  have lib: "library_inverts reading (randomBytes16 late) (metadata_of application)
        (encryptionKey_of office)"
    unfolding metadata_of_application by (rule reading_inverts)
  have rd: "blob_readable reading (json_of_encrypted ?e)"
    unfolding r by (rule reading_blob)
  have m: "retrieve_and_decrypt reading ''local-1700000000123-k3x9.json''
        (fst (issue_route reading late submitted office))
        = Inr (JObject [(''studentName'', JString ''Ada''), (''courseName'', JString ''Logic''),
                        (''institution'', JString ''Kings'')])"
    using issued_then_read [OF ok u f s up lib rd] unfolding metadata_of_application .
  have v: "verify_route reading submitted (fst (issue_route reading late submitted office))
        = Response 500 (JObject [(''error'', JString ''Failed to verify certificate''),
                                 (''details'', JString ''Invalid time value'')])"
    unfolding issued_then_verified [OF ok u f s up lib rd u f] t'
    by (simp add: issuedDate_out_of_range failed_def)
  from ok t m v show ?thesis by blast
qed

end
